theory Spec2Isabelle
  imports Main
begin

section \<open>Text\<close>

text \<open>
  Python text is modelled as \<^typ>\<open>string\<close>, every character being one code point below 256
  (the Latin-1 range). The functions below are the methods of \<^verbatim>\<open>str\<close> that the
  validation package calls, restricted to that range: the line boundaries of
  \<^verbatim>\<open>splitlines\<close> and the white space of \<^verbatim>\<open>strip\<close> are the ones that lie
  in it, and \<^verbatim>\<open>lower\<close> maps the capital letters of ASCII and Latin-1.
\<close>

fun startswith :: "string \<Rightarrow> string \<Rightarrow> bool" where
  "startswith s [] = True"
| "startswith [] (p # ps) = False"
| "startswith (c # cs) (p # ps) = (c = p \<and> startswith cs ps)"

text \<open>\<^verbatim>\<open>sub in s\<close>\<close>

fun py_in :: "string \<Rightarrow> string \<Rightarrow> bool" where
  "py_in sub [] = (sub = [])"
| "py_in sub (c # cs) = (startswith (c # cs) sub \<or> py_in sub cs)"

definition is_linebreak :: "char \<Rightarrow> bool" where
  "is_linebreak c \<longleftrightarrow>
     c \<in> {CHR 0x0A, CHR 0x0D, CHR 0x0B, CHR 0x0C, CHR 0x1C, CHR 0x1D, CHR 0x1E, CHR 0x85}"

text \<open>
  \<^verbatim>\<open>s.splitlines()\<close>: the boundaries are not part of the lines, CR LF is one boundary,
  and a boundary at the very end opens no further line.
\<close>

fun splitlines_from :: "string \<Rightarrow> string \<Rightarrow> string list" where
  "splitlines_from cur [] = (if cur = [] then [] else [cur])"
| "splitlines_from cur [c] = (if is_linebreak c then [cur] else [cur @ [c]])"
| "splitlines_from cur (c # d # ds) =
     (if c = CHR 0x0D \<and> d = CHR 0x0A then cur # splitlines_from [] ds
      else if is_linebreak c then cur # splitlines_from [] (d # ds)
      else splitlines_from (cur @ [c]) (d # ds))"

definition splitlines :: "string \<Rightarrow> string list" where
  "splitlines s = splitlines_from [] s"

definition is_space :: "char \<Rightarrow> bool" where
  "is_space c \<longleftrightarrow>
     c \<in> {CHR 0x09, CHR 0x0A, CHR 0x0B, CHR 0x0C, CHR 0x0D, CHR 0x1C, CHR 0x1D,
          CHR 0x1E, CHR 0x1F, CHR 0x20, CHR 0x85, CHR 0xA0}"

definition strip :: "string \<Rightarrow> string" where
  "strip s = rev (dropWhile is_space (rev (dropWhile is_space s)))"

text \<open>\<^verbatim>\<open>s.rstrip(")")\<close>\<close>

definition rstrip_char :: "char \<Rightarrow> string \<Rightarrow> string" where
  "rstrip_char x s = rev (dropWhile (\<lambda>c. c = x) (rev s))"

text \<open>\<^verbatim>\<open>s.split(sep)\<close> for a separator of one character: never an empty list.\<close>

fun split_from :: "char \<Rightarrow> string \<Rightarrow> string \<Rightarrow> string list" where
  "split_from sep cur [] = [cur]"
| "split_from sep cur (c # cs) =
     (if c = sep then cur # split_from sep [] cs else split_from sep (cur @ [c]) cs)"

definition split :: "char \<Rightarrow> string \<Rightarrow> string list" where
  "split sep s = split_from sep [] s"

text \<open>\<^verbatim>\<open>s.split(sep, 1)\<close>: the text before the first separator, and the rest if there is one.\<close>

definition split_once :: "char \<Rightarrow> string \<Rightarrow> string list" where
  "split_once sep s =
     (if sep \<in> set s then [takeWhile (\<lambda>c. c \<noteq> sep) s, tl (dropWhile (\<lambda>c. c \<noteq> sep) s)]
      else [s])"

text \<open>\<^verbatim>\<open>s.replace(old, "")\<close>\<close>

fun remove_all :: "string \<Rightarrow> string \<Rightarrow> string" where
  "remove_all old [] = []"
| "remove_all old (c # cs) =
     (if old \<noteq> [] \<and> startswith (c # cs) old then remove_all old (drop (length old) (c # cs))
      else c # remove_all old cs)"

text \<open>\<^verbatim>\<open>sep.join(xs)\<close>\<close>

fun join :: "string \<Rightarrow> string list \<Rightarrow> string" where
  "join sep [] = []"
| "join sep [x] = x"
| "join sep (x # y # ys) = x @ sep @ join sep (y # ys)"

definition lower_char :: "char \<Rightarrow> char" where
  "lower_char c =
     (let n = (of_char c :: nat)
      in if (65 \<le> n \<and> n \<le> 90) \<or> (192 \<le> n \<and> n \<le> 222 \<and> n \<noteq> 215)
         then char_of (n + 32) else c)"

definition lower :: "string \<Rightarrow> string" where
  "lower s = map lower_char s"

subsection \<open>Integers and text\<close>

definition is_digit :: "char \<Rightarrow> bool" where
  "is_digit c \<longleftrightarrow> 48 \<le> (of_char c :: nat) \<and> (of_char c :: nat) \<le> 57"

definition digit_value :: "char \<Rightarrow> int" where
  "digit_value c = int (of_char c) - 48"

text \<open>
  The digits of a decimal literal may be grouped by single underscores, which may neither
  begin nor end it.
\<close>

definition int_body_ok :: "string \<Rightarrow> bool" where
  "int_body_ok ds \<longleftrightarrow>
     ds \<noteq> [] \<and> (\<forall>c \<in> set ds. is_digit c \<or> c = CHR ''_'') \<and>
     hd ds \<noteq> CHR ''_'' \<and> last ds \<noteq> CHR ''_'' \<and> \<not> py_in ''__'' ds"

definition digits_value :: "string \<Rightarrow> int" where
  "digits_value ds = foldl (\<lambda>a c. 10 * a + digit_value c) 0 (filter is_digit ds)"

text \<open>\<^verbatim>\<open>str(n)\<close> for a length or a count.\<close>

function str_nat :: "nat \<Rightarrow> string" where
  "str_nat n =
     (if n < 10 then [char_of (48 + n)] else str_nat (n div 10) @ [char_of (48 + n mod 10)])"
  by pat_completeness auto
termination
  by (relation "measure id") auto

declare str_nat.simps [simp del]

section \<open>Exceptions\<close>

text \<open>
  A Python object that is text, bytes or \<^verbatim>\<open>None\<close>: the \<^verbatim>\<open>stdout\<close> and
  \<^verbatim>\<open>stderr\<close> attributes of the exceptions of \<^verbatim>\<open>subprocess\<close> may be any of the three.
\<close>

datatype pyobj = PyNone | PyStr string | PyBytes string

text \<open>
  The exceptions that occur. \<open>ValueError\<close> carries the message given by the program where
  it raises one; \<open>InvalidLiteral\<close> is the \<^verbatim>\<open>ValueError\<close> of \<^verbatim>\<open>int()\<close>, and
  \<open>UnpackError\<close> the one of an assignment to two names from a list of another length.
  \<open>CalledProcessError\<close> carries the exit code and the captured output, \<open>TimeoutExpired\<close>
  its two output attributes, \<open>ProjectSetupError\<close> its message and output,
  \<open>PackageInstallationError\<close> the package and the error output. \<open>LibraryError\<close> is any other
  exception raised by a library. \<open>KeyboardInterrupt\<close> is the one member that
  \<^verbatim>\<open>except Exception\<close> does not catch.
\<close>

datatype exn =
    ValueError string
  | InvalidLiteral string
  | UnpackError
  | IndexError
  | TypeError
  | OverflowError
  | UnboundLocalError string
  | CalledProcessError int string string
  | TimeoutExpired pyobj pyobj
  | OSError string
  | LibraryError string
  | ProjectSetupError string pyobj
  | PackageInstallationError string string
  | KeyboardInterrupt

definition is_Exception :: "exn \<Rightarrow> bool" where
  "is_Exception e \<longleftrightarrow> e \<noteq> KeyboardInterrupt"

fun is_ValueError :: "exn \<Rightarrow> bool" where
  "is_ValueError (ValueError _) = True"
| "is_ValueError (InvalidLiteral _) = True"
| "is_ValueError UnpackError = True"
| "is_ValueError _ = False"

fun is_IndexError :: "exn \<Rightarrow> bool" where
  "is_IndexError IndexError = True"
| "is_IndexError _ = False"

fun is_CalledProcessError :: "exn \<Rightarrow> bool" where
  "is_CalledProcessError (CalledProcessError _ _ _) = True"
| "is_CalledProcessError _ = False"

fun is_TimeoutExpired :: "exn \<Rightarrow> bool" where
  "is_TimeoutExpired (TimeoutExpired _ _) = True"
| "is_TimeoutExpired _ = False"


fun is_PackageInstallationError :: "exn \<Rightarrow> bool" where
  "is_PackageInstallationError (PackageInstallationError _ _) = True"
| "is_PackageInstallationError _ = False"

text \<open>Results of pure code that may raise.\<close>

definition sbind :: "exn + 'a \<Rightarrow> ('a \<Rightarrow> exn + 'b) \<Rightarrow> exn + 'b" where
  "sbind r f = (case r of Inl e \<Rightarrow> Inl e | Inr x \<Rightarrow> f x)"

text \<open>\<^verbatim>\<open>xs[i]\<close> for \<open>i \<ge> 0\<close>\<close>

definition index :: "'a list \<Rightarrow> nat \<Rightarrow> exn + 'a" where
  "index xs i = (if i < length xs then Inr (xs ! i) else Inl IndexError)"

text \<open>
  \<^verbatim>\<open>int(s)\<close>: white space around the literal is dropped, one sign may precede the digits.
  The interpreter's limit on the number of digits it converts is not modelled.
\<close>

definition py_int :: "string \<Rightarrow> exn + int" where
  "py_int s =
     (let t = strip s;
          (neg, body) =
            (case t of
               c # cs \<Rightarrow>
                 if c = CHR ''-'' then (True, cs)
                 else if c = CHR ''+'' then (False, cs) else (False, t)
             | [] \<Rightarrow> (False, t))
      in if int_body_ok body then Inr (if neg then - digits_value body else digits_value body)
         else Inl (InvalidLiteral s))"

section \<open>Data model\<close>

text \<open>
  The dataclasses of \<^verbatim>\<open>agents/utils/models.py\<close> that the validation package uses. The
  duration and the raw output of a test result are named \<open>test_duration_ms\<close> and
  \<open>test_raw_output\<close>, since a field name belongs to one record.
\<close>

type_synonym path = string

datatype chat_model = ChatModel string

record ValidationInputs =
  implementation_code :: string
  unit_test_code :: string
  nuget_packages :: string
  yaml_path :: "path option"
  search_term_llm :: "chat_model option"

record BuildMetrics =
  warnings :: "string list"
  errors :: "string list"
  success :: bool
  duration_ms :: int
  raw_output :: string

record TestResult =
  passed :: int
  failed :: int
  skipped :: int
  test_duration_ms :: int
  error_details :: "string list option"
  test_raw_output :: string

record ActionMapInfo =
  implementation :: string
  ground_truth :: string
  matches :: bool

record ValidationMetrics =
  build_metrics :: BuildMetrics
  llm_test_results :: "TestResult option"
  ground_truth_test_results :: "TestResult option"
  odc_generator_output :: pyobj
  solution_dir :: "path option"
  action_map_info :: "ActionMapInfo option"

record ActionMapResult =
  should_continue :: bool
  result_output :: string
  result_info :: "ActionMapInfo option"
  param_mapping :: "string option"

text \<open>\<^verbatim>\<open>BuildMetrics(success=False, duration_ms=0)\<close>, the value of a build not attempted.\<close>

definition default_build_metrics :: BuildMetrics where
  "default_build_metrics =
     \<lparr>warnings = [], errors = [], success = False, duration_ms = 0, raw_output = []\<rparr>"

section \<open>Output parsers\<close>

subsection \<open>Build output (\<^verbatim>\<open>build.py\<close>)\<close>

text \<open>The variables of the loop of \<^verbatim>\<open>_parse_build_output\<close>.\<close>

record build_scan =
  scan_warnings :: "string list"
  scan_errors :: "string list"
  seen_warning_lines :: "string set"
  seen_error_lines :: "string set"

definition scan_build_line :: "build_scan \<Rightarrow> string \<Rightarrow> build_scan" where
  "scan_build_line st line =
     (let st1 = (if py_in '': warning '' line \<and> line \<notin> seen_warning_lines st
                 then st\<lparr>scan_warnings := scan_warnings st @ [line],
                         seen_warning_lines := insert line (seen_warning_lines st)\<rparr>
                 else st)
      in (if py_in '': error '' line \<and> line \<notin> seen_error_lines st1
          then st1\<lparr>scan_errors := scan_errors st1 @ [line],
                   seen_error_lines := insert line (seen_error_lines st1)\<rparr>
          else st1))"

definition scan_build_lines :: "string list \<Rightarrow> build_scan" where
  "scan_build_lines ls =
     foldl scan_build_line
       \<lparr>scan_warnings = [], scan_errors = [], seen_warning_lines = {}, seen_error_lines = {}\<rparr> ls"

text \<open>
  The duration is found by a regular expression and computed in floating point; it is the
  parameter \<open>time_elapsed\<close> here: \<open>Some d\<close> is the value the code assigns (0 where nothing
  matches, or where the handler of the \<^verbatim>\<open>try\<close> catches the failure), \<open>None\<close> the one
  failure that the handler does not catch, the \<^verbatim>\<open>OverflowError\<close> of converting a float
  too large.
\<close>

definition parse_build_output :: "(string \<Rightarrow> int option) \<Rightarrow> string \<Rightarrow> exn + BuildMetrics" where
  "parse_build_output time_elapsed build_stdout =
     (let st = scan_build_lines (splitlines build_stdout);
          ok = (py_in ''Build succeeded'' build_stdout \<and> length (scan_errors st) = 0)
      in case time_elapsed build_stdout of
           None \<Rightarrow> Inl OverflowError
         | Some d \<Rightarrow>
             Inr \<lparr>warnings = scan_warnings st, errors = scan_errors st, success = ok,
                  duration_ms = d, raw_output = build_stdout\<rparr>)"

text \<open>
  The order the specification asks of the two lists, written from its words: every line is
  kept at its first occurrence and dropped at every later one.
\<close>

fun first_seen :: "'a list \<Rightarrow> 'a list" where
  "first_seen [] = []"
| "first_seen (x # xs) = x # first_seen (filter (\<lambda>y. y \<noteq> x) xs)"

subsection \<open>Test output (\<^verbatim>\<open>test.py\<close>)\<close>

text \<open>The variables of the loop of \<^verbatim>\<open>_parse_test_output\<close>.\<close>

record test_scan =
  cur_passed :: int
  cur_failed :: int
  cur_skipped :: int
  cur_duration_ms :: int
  cur_error_details :: "string list"

text \<open>\<^verbatim>\<open>int(part.split(":")[1].strip())\<close>\<close>

definition count_field :: "string \<Rightarrow> exn + int" where
  "count_field part = sbind (index (split CHR '':'' part) 1) (\<lambda>x. py_int (strip x))"

definition scan_test_part :: "test_scan \<Rightarrow> string \<Rightarrow> exn + test_scan" where
  "scan_test_part st part0 =
     (let part = strip part0
      in if startswith part ''Failed:'' then
           sbind (count_field part) (\<lambda>v. Inr (st\<lparr>cur_failed := v\<rparr>))
         else if startswith part ''Passed:'' then
           sbind (count_field part) (\<lambda>v. Inr (st\<lparr>cur_passed := v\<rparr>))
         else if startswith part ''Skipped:'' then
           sbind (count_field part) (\<lambda>v. Inr (st\<lparr>cur_skipped := v\<rparr>))
         else if startswith part ''Duration:'' then
           sbind (index (split CHR '' '' (strip (remove_all ''ms'' (remove_all ''Duration:'' part)))) 0)
             (\<lambda>time_str.
                case py_int time_str of
                  Inr v \<Rightarrow> Inr (st\<lparr>cur_duration_ms := v\<rparr>)
                | Inl e \<Rightarrow> if is_ValueError e then Inr (st\<lparr>cur_duration_ms := 0\<rparr>) else Inl e)
         else Inr st)"

text \<open>
  An exception leaves the loops at once; the variables keep what was assigned before it.
\<close>

fun scan_test_parts :: "test_scan \<Rightarrow> string list \<Rightarrow> test_scan \<times> exn option" where
  "scan_test_parts st [] = (st, None)"
| "scan_test_parts st (p # ps) =
     (case scan_test_part st p of
        Inl e \<Rightarrow> (st, Some e)
      | Inr st' \<Rightarrow> scan_test_parts st' ps)"

definition scan_test_line :: "test_scan \<Rightarrow> string \<Rightarrow> test_scan \<times> exn option" where
  "scan_test_line st line =
     (let line_strip = strip line;
          (st1, raised) =
            (if py_in ''Failed!  -'' line_strip \<or> py_in ''Passed!  -'' line_strip then
               (case index (split CHR ''-'' line_strip) 1 of
                  Inl e \<Rightarrow> (st, Some e)
                | Inr x \<Rightarrow> scan_test_parts st (split CHR '','' (strip x)))
             else (st, None))
      in case raised of
           Some e \<Rightarrow> (st1, Some e)
         | None \<Rightarrow>
             (if py_in ''[FAIL]'' line_strip
              then st1\<lparr>cur_error_details := cur_error_details st1 @ [line_strip]\<rparr>
              else st1, None))"

fun scan_test_lines :: "test_scan \<Rightarrow> string list \<Rightarrow> test_scan \<times> exn option" where
  "scan_test_lines st [] = (st, None)"
| "scan_test_lines st (l # ls) =
     (case scan_test_line st l of
        (st', Some e) \<Rightarrow> (st', Some e)
      | (st', None) \<Rightarrow> scan_test_lines st' ls)"

text \<open>
  The handler of \<^verbatim>\<open>_parse_test_output\<close> is \<^verbatim>\<open>except Exception\<close> and only logs.
\<close>

definition parse_test_output :: "string \<Rightarrow> exn + TestResult" where
  "parse_test_output test_stdout =
     (let (st, raised) =
            scan_test_lines
              \<lparr>cur_passed = 0, cur_failed = 0, cur_skipped = 0, cur_duration_ms = 0,
               cur_error_details = []\<rparr>
              (splitlines test_stdout);
          res = \<lparr>passed = cur_passed st, failed = cur_failed st, skipped = cur_skipped st,
                 test_duration_ms = cur_duration_ms st,
                 error_details =
                   (if cur_error_details st = [] then None else Some (cur_error_details st)),
                 test_raw_output = test_stdout\<rparr>
      in case raised of
           None \<Rightarrow> Inr res
         | Some e \<Rightarrow> if is_Exception e then Inr res else Inl e)"



section \<open>The outside world\<close>

text \<open>
  The package drives external programs, a chat model and the file system. Every such call
  is recorded as an event, together with the answer it got; a run yields the list of its
  events in order. The answers are given by a \<open>world\<close> and may depend on everything that
  happened before. The theorems hold for every world.

  Directories are created inside the fresh temporary directory of the run; their creation
  is taken to succeed and is no event. Log messages are not modelled, with one exception:
  the three lines that print the action-map comparison are the event \<open>Compared\<close>.
\<close>

datatype fs_op =
    CreateTemp path
  | WriteText path string
  | ReadText path
  | Unlink path
  | Rmtree path
  | Copytree path path "string list"
  | ListTree path

text \<open>
  A process ends with an exit code and its two captured outputs, runs into its timeout, or
  cannot be started.
\<close>

datatype proc_outcome = Exited int string string | TimedOut pyobj pyobj | LaunchFailed string

text \<open>
  Reading the ground truth: \<open>YamlError\<close> is a failure to open or parse the file,
  \<open>InvalidStructure\<close> a \<^verbatim>\<open>KeyError\<close> or \<^verbatim>\<open>AttributeError\<close> on the way to the
  parameter lists, \<open>OtherFailure\<close> any other exception there, each with the text of the
  exception; \<open>ParamCounts\<close> gives, for every declared action in order, the number of its
  parameters.
\<close>

datatype yaml_outcome =
    YamlError string
  | InvalidStructure string
  | OtherFailure string
  | ParamCounts "nat list"

text \<open>The content of the model's reply is text or not, or the call raises.\<close>

datatype llm_outcome = Content string | NonTextContent | InvokeFailed string

text \<open>
  \<open>Exec cwd argv timeout\<close> is a call of \<^verbatim>\<open>subprocess.run\<close>, \<open>Fs\<close> an operation on the
  file system with the text of its error if it fails, \<open>Exists\<close> a call of
  \<^verbatim>\<open>Path.exists\<close>, \<open>Invoke\<close> a request to the chat model with the last message of the
  request, \<open>Sleep\<close> a call of \<^verbatim>\<open>time.sleep\<close>.
\<close>

datatype event =
    Exec "path option" "string list" "nat option" proc_outcome
  | Sleep nat
  | Fs fs_op "string option"
  | Exists path bool
  | LoadYaml path yaml_outcome
  | Invoke chat_model string llm_outcome
  | Compared ActionMapInfo

record world =
  generator_exe :: string
  tmp_dir :: path
  tmp_file :: path
  proc :: "event list \<Rightarrow> path option \<Rightarrow> string list \<Rightarrow> nat option \<Rightarrow> proc_outcome"
  fs_error :: "event list \<Rightarrow> fs_op \<Rightarrow> string option"
  fs_exists :: "event list \<Rightarrow> path \<Rightarrow> bool"
  yaml_file :: "event list \<Rightarrow> path \<Rightarrow> yaml_outcome"
  llm_reply :: "event list \<Rightarrow> chat_model \<Rightarrow> string \<Rightarrow> llm_outcome"
  exn_text :: "exn \<Rightarrow> string"
  time_elapsed :: "string \<Rightarrow> int option"

subsection \<open>Programs\<close>

text \<open>
  A program takes the events so far and returns a value or an exception, with the events
  extended by its own.
\<close>

type_synonym 'a prog = "event list \<Rightarrow> (exn + 'a) \<times> event list"

definition ret :: "'a \<Rightarrow> 'a prog" where
  "ret x tr = (Inr x, tr)"

definition throw :: "exn \<Rightarrow> 'a prog" where
  "throw e tr = (Inl e, tr)"

definition lift :: "exn + 'a \<Rightarrow> 'a prog" where
  "lift r tr = (r, tr)"

definition andthen :: "'a prog \<Rightarrow> ('a \<Rightarrow> 'b prog) \<Rightarrow> 'b prog" where
  "andthen m f tr = (case m tr of (Inl e, tr') \<Rightarrow> (Inl e, tr') | (Inr x, tr') \<Rightarrow> f x tr')"

text \<open>\<^verbatim>\<open>try: m except C as e: handler\<close>, with \<open>catches\<close> the membership in \<^verbatim>\<open>C\<close>.\<close>

definition catching :: "'a prog \<Rightarrow> (exn \<Rightarrow> bool) \<Rightarrow> (exn \<Rightarrow> 'a prog) \<Rightarrow> 'a prog" where
  "catching m catches handler tr =
     (case m tr of
        (Inl e, tr') \<Rightarrow> if catches e then handler e tr' else (Inl e, tr')
      | (Inr x, tr') \<Rightarrow> (Inr x, tr'))"

text \<open>\<^verbatim>\<open>try: m finally: cleanup\<close>\<close>

definition ensuring :: "'a prog \<Rightarrow> unit prog \<Rightarrow> 'a prog" where
  "ensuring m cleanup tr =
     (case m tr of
        (r, tr') \<Rightarrow>
          (case cleanup tr' of (Inl e, tr'') \<Rightarrow> (Inl e, tr'') | (Inr _, tr'') \<Rightarrow> (r, tr'')))"

fun for_each :: "'a list \<Rightarrow> ('a \<Rightarrow> unit prog) \<Rightarrow> unit prog" where
  "for_each [] f = ret ()"
| "for_each (x # xs) f = andthen (f x) (\<lambda>_. for_each xs f)"

subsection \<open>Calls to the world\<close>

record completed =
  returncode :: int
  stdout :: string
  stderr :: string

text \<open>What \<^verbatim>\<open>subprocess.run\<close> makes of the end of the process.\<close>

definition completed_or_raised :: "bool \<Rightarrow> proc_outcome \<Rightarrow> exn + completed" where
  "completed_or_raised check outcome =
     (case outcome of
        Exited rc out err \<Rightarrow>
          if check \<and> rc \<noteq> 0 then Inl (CalledProcessError rc out err)
          else Inr \<lparr>returncode = rc, stdout = out, stderr = err\<rparr>
      | TimedOut out err \<Rightarrow> Inl (TimeoutExpired out err)
      | LaunchFailed msg \<Rightarrow> Inl (OSError msg))"

text \<open>
  \<^verbatim>\<open>subprocess.run(argv, cwd=cwd, capture_output=True, text=True, check=check,
  timeout=timeout)\<close>
\<close>

definition run :: "world \<Rightarrow> path option \<Rightarrow> string list \<Rightarrow> bool \<Rightarrow> nat option \<Rightarrow> completed prog" where
  "run w cwd argv check timeout tr =
     (let outcome = proc w tr cwd argv timeout
      in (completed_or_raised check outcome, tr @ [Exec cwd argv timeout outcome]))"

definition run_unit :: "world \<Rightarrow> path option \<Rightarrow> string list \<Rightarrow> bool \<Rightarrow> nat option \<Rightarrow> unit prog" where
  "run_unit w cwd argv check timeout = andthen (run w cwd argv check timeout) (\<lambda>_. ret ())"

definition fs :: "world \<Rightarrow> fs_op \<Rightarrow> unit prog" where
  "fs w op tr =
     (let failure = fs_error w tr op
      in (case failure of None \<Rightarrow> Inr () | Some msg \<Rightarrow> Inl (OSError msg), tr @ [Fs op failure]))"

definition path_exists :: "world \<Rightarrow> path \<Rightarrow> bool prog" where
  "path_exists w p tr = (let b = fs_exists w tr p in (Inr b, tr @ [Exists p b]))"

definition sleep :: "nat \<Rightarrow> unit prog" where
  "sleep n tr = (Inr (), tr @ [Sleep n])"

definition load_yaml :: "world \<Rightarrow> path \<Rightarrow> yaml_outcome prog" where
  "load_yaml w p tr = (let y = yaml_file w tr p in (Inr y, tr @ [LoadYaml p y]))"

definition invoke :: "world \<Rightarrow> chat_model \<Rightarrow> string \<Rightarrow> llm_outcome prog" where
  "invoke w m msg tr = (let reply = llm_reply w tr m msg in (Inr reply, tr @ [Invoke m msg reply]))"

definition observe :: "event \<Rightarrow> unit prog" where
  "observe ev tr = (Inr (), tr @ [ev])"

text \<open>\<^verbatim>\<open>if p.exists(): p.unlink()\<close>\<close>

definition remove_if_exists :: "world \<Rightarrow> path \<Rightarrow> unit prog" where
  "remove_if_exists w p = andthen (path_exists w p) (\<lambda>b. if b then fs w (Unlink p) else ret ())"

subsection \<open>Text of exceptions\<close>

text \<open>
  \<^verbatim>\<open>str(e)\<close> is the message where the exception carries one, and is left to the world
  for the exceptions of the interpreter and of \<^verbatim>\<open>subprocess\<close>.
\<close>

definition str_exn :: "world \<Rightarrow> exn \<Rightarrow> string" where
  "str_exn w e =
     (case e of
        ValueError m \<Rightarrow> m
      | OSError m \<Rightarrow> m
      | LibraryError m \<Rightarrow> m
      | ProjectSetupError m _ \<Rightarrow> m
      | PackageInstallationError p out \<Rightarrow> ''Failed to install package '' @ p @ '': '' @ out
      | _ \<Rightarrow> exn_text w e)"

text \<open>\<^verbatim>\<open>getattr(e, "stderr", str(e))\<close> and \<^verbatim>\<open>getattr(e, "stdout", "")\<close>\<close>

definition stderr_or_str :: "world \<Rightarrow> exn \<Rightarrow> pyobj" where
  "stderr_or_str w e =
     (case e of
        CalledProcessError _ _ err \<Rightarrow> PyStr err
      | TimeoutExpired _ err \<Rightarrow> err
      | _ \<Rightarrow> PyStr (str_exn w e))"

definition stdout_or_empty :: "exn \<Rightarrow> pyobj" where
  "stdout_or_empty e =
     (case e of
        CalledProcessError _ out _ \<Rightarrow> PyStr out
      | TimeoutExpired out _ \<Rightarrow> out
      | _ \<Rightarrow> PyStr [])"

text \<open>\<^verbatim>\<open>a + "\n" + b\<close>, a \<^verbatim>\<open>TypeError\<close> unless both are text.\<close>

definition concat_lines :: "pyobj \<Rightarrow> pyobj \<Rightarrow> exn + string" where
  "concat_lines a b =
     (case (a, b) of
        (PyStr x, PyStr y) \<Rightarrow> Inr (x @ ''\<newline>'' @ y)
      | _ \<Rightarrow> Inl TypeError)"

definition joinpath :: "path \<Rightarrow> string \<Rightarrow> path" where
  "joinpath d n = d @ ''/'' @ n"

definition TARGET_FRAMEWORK :: string where
  "TARGET_FRAMEWORK = ''net8.0''"

section \<open>Action-map validation (\<^verbatim>\<open>action_map.py\<close>)\<close>

text \<open>
  Parameters that only serve log messages are left out of the functions below. The fields
  \<^verbatim>\<open>odc_generator_output\<close> and \<^verbatim>\<open>action_map_info\<close> of \<^verbatim>\<open>ActionMapResult\<close> are
  \<open>result_output\<close> and \<open>result_info\<close>.
\<close>

definition action_map_result :: "bool \<Rightarrow> string \<Rightarrow> ActionMapInfo option \<Rightarrow> string option \<Rightarrow> ActionMapResult" where
  "action_map_result c out info mapping =
     \<lparr>should_continue = c, result_output = out, result_info = info, param_mapping = mapping\<rparr>"

text \<open>
  \<^verbatim>\<open>f"{num_actions}({', '.join(map(str, param_counts))})"\<close> with the counts sorted.
\<close>

definition ground_truth_map :: "nat list \<Rightarrow> string" where
  "ground_truth_map counts =
     str_nat (length counts) @ ''('' @ join '', '' (map str_nat (sort counts)) @ '')''"

fun int_each :: "string list \<Rightarrow> exn + int list" where
  "int_each [] = Inr []"
| "int_each (p # ps) =
     sbind (py_int (strip p)) (\<lambda>v. sbind (int_each ps) (\<lambda>vs. Inr (v # vs)))"

definition parse_impl_map :: "string \<Rightarrow> exn + (int \<times> int list)" where
  "parse_impl_map impl_map =
     (let body =
            (case split_once CHR ''('' impl_map of
               [actions_str, params_str0] \<Rightarrow>
                 sbind (py_int actions_str) (\<lambda>num_actions.
                   let params_str = rstrip_char CHR '')'' params_str0
                   in sbind (if params_str \<noteq> [] then int_each (split CHR '','' params_str) else Inr [])
                        (\<lambda>param_counts. Inr (num_actions, param_counts)))
             | _ \<Rightarrow> Inl UnpackError)
      in case body of
           Inl e \<Rightarrow>
             if is_ValueError e \<or> is_IndexError e
             then Inl (ValueError (''Invalid implementation map format: '' @ impl_map))
             else Inl e
         | Inr r \<Rightarrow> Inr r)"

text \<open>
  The two messages and the worked example that precede the report in the request are
  constants of the source; the event records the report, which is the last message.
\<close>

definition get_param_mapping :: "world \<Rightarrow> path \<Rightarrow> path \<Rightarrow> chat_model \<Rightarrow> string option prog" where
  "get_param_mapping w impl_file yaml llm =
     catching
       (andthen (run w None [generator_exe w, ''--report'', impl_file, yaml] True (Some 30))
          (\<lambda>report_proc.
             andthen (invoke w llm (stdout report_proc))
               (\<lambda>reply.
                  case reply of
                    Content mapping \<Rightarrow> ret (Some (strip mapping))
                  | NonTextContent \<Rightarrow> ret None
                  | InvokeFailed msg \<Rightarrow> throw (LibraryError msg))))
       is_Exception
       (\<lambda>e. ret None)"

definition validate_action_map :: "world \<Rightarrow> path \<Rightarrow> string \<Rightarrow> path option \<Rightarrow> chat_model \<Rightarrow> ActionMapResult prog" where
  "validate_action_map w implementation_project_dir class_name yaml llm =
     (case yaml of
        None \<Rightarrow> ret (action_map_result True [] None None)
      | Some ypath \<Rightarrow>
          (let impl_file = joinpath implementation_project_dir (class_name @ ''.cs'')
           in catching
                (andthen (run w None [generator_exe w, ''--map'', impl_file] True (Some 30))
                   (\<lambda>action_map_proc.
                      let impl_map = strip (stdout action_map_proc)
                      in if impl_map = [] then
                           ret (action_map_result False ''Empty implementation map'' None None)
                         else
                           andthen (load_yaml w ypath)
                             (\<lambda>loaded.
                                case loaded of
                                  YamlError msg \<Rightarrow>
                                    ret (action_map_result False (''YAML error: '' @ msg) None None)
                                | InvalidStructure msg \<Rightarrow>
                                    ret (action_map_result False
                                          (''Invalid YAML structure: '' @ msg) None None)
                                | OtherFailure msg \<Rightarrow> throw (LibraryError msg)
                                | ParamCounts param_counts \<Rightarrow>
                                    (let gt_map = ground_truth_map param_counts;
                                         info = \<lparr>implementation = impl_map, ground_truth = gt_map,
                                                 matches = (impl_map = gt_map)\<rparr>
                                     in andthen (observe (Compared info))
                                          (\<lambda>_.
                                             if \<not> matches info then
                                               ret (action_map_result False [] (Some info) None)
                                             else
                                               catching
                                                 (andthen (lift (parse_impl_map impl_map))
                                                    (\<lambda>(num_actions, counts).
                                                       if num_actions > 1 then
                                                         ret (action_map_result False [] (Some info) None)
                                                       else
                                                         andthen (lift (index counts 0))
                                                           (\<lambda>param_count.
                                                              if param_count = 1 then
                                                                ret (action_map_result True [] (Some info) None)
                                                              else
                                                                andthen (get_param_mapping w impl_file ypath llm)
                                                                  (\<lambda>mapping.
                                                                     case mapping of
                                                                       None \<Rightarrow>
                                                                         ret (action_map_result False
                                                                               ''Failed to generate parameter mapping''
                                                                               (Some info) None)
                                                                     | Some m \<Rightarrow>
                                                                         ret (action_map_result True []
                                                                               (Some info) (Some m))))))
                                                 is_ValueError
                                                 (\<lambda>e. ret (action_map_result False (str_exn w e) None None)))))))
                is_Exception
                (\<lambda>e. ret (action_map_result False (str_exn w e) None None))))"

section \<open>Project setup (\<^verbatim>\<open>setup.py\<close>)\<close>

definition install_package :: "world \<Rightarrow> string \<Rightarrow> path \<Rightarrow> bool \<Rightarrow> bool prog" where
  "install_package w package project_dir allow_failure =
     catching
       (andthen (run w (Some project_dir) [''dotnet'', ''add'', ''package'', package] True None)
          (\<lambda>_. ret True))
       is_CalledProcessError
       (\<lambda>e. if allow_failure then ret False
             else throw (PackageInstallationError package
                          (case e of CalledProcessError _ _ err \<Rightarrow> err | _ \<Rightarrow> [])))"

definition install_required :: "world \<Rightarrow> path \<Rightarrow> string list \<Rightarrow> unit prog" where
  "install_required w project_dir pkgs =
     for_each pkgs (\<lambda>pkg. andthen (install_package w pkg project_dir False) (\<lambda>_. ret ()))"

definition scaffold_classlib :: "string list" where
  "scaffold_classlib =
     [''dotnet'', ''new'', ''classlib'', ''--framework'', TARGET_FRAMEWORK, ''--no-restore'']"

definition create_implementation_project :: "world \<Rightarrow> path \<Rightarrow> string \<Rightarrow> string \<Rightarrow> path prog" where
  "create_implementation_project w class_dir class_name code =
     (let implementation_project_dir = joinpath class_dir class_name;
          default_file = joinpath implementation_project_dir ''Class1.cs'';
          code_path = joinpath implementation_project_dir (class_name @ ''.cs'')
      in andthen
           (catching
              (run_unit w (Some implementation_project_dir) scaffold_classlib True (Some 30))
              (\<lambda>e. is_TimeoutExpired e \<or> is_CalledProcessError e)
              (\<lambda>e. andthen (sleep 2)
                     (\<lambda>_. catching
                            (run_unit w (Some implementation_project_dir) scaffold_classlib True (Some 40))
                            is_Exception
                            (\<lambda>e2. throw (ProjectSetupError ''Failed to create implementation project''
                                           (stderr_or_str w e2))))))
           (\<lambda>_. andthen
                  (catching
                     (andthen (remove_if_exists w default_file)
                        (\<lambda>_. fs w (WriteText code_path code)))
                     is_Exception
                     (\<lambda>e. throw (ProjectSetupError
                                   (''Failed to write implementation code: '' @ str_exn w e) (PyStr []))))
                  (\<lambda>_. andthen
                         (catching
                            (install_required w implementation_project_dir
                               [''OutSystems.ExternalLibraries.SDK'', ''CustomCode.Analyzer''])
                            is_PackageInstallationError
                            (\<lambda>e. case e of
                                    PackageInstallationError package error_output \<Rightarrow>
                                      throw (ProjectSetupError
                                              (''Failed to install required package: '' @ package)
                                              (PyStr error_output))
                                  | _ \<Rightarrow> throw e))
                         (\<lambda>_. ret implementation_project_dir))))"

text \<open>The two list comprehensions of \<^verbatim>\<open>_install_optional_packages\<close>.\<close>

definition optional_packages :: "string \<Rightarrow> string list" where
  "optional_packages nuget =
     filter (\<lambda>pkg. pkg \<noteq> [] \<and> lower pkg \<noteq> ''none'' \<and> lower pkg \<noteq> ''moq'')
       (map strip (split CHR '','' nuget))"

fun install_each :: "world \<Rightarrow> path \<Rightarrow> string list \<Rightarrow> string list \<Rightarrow> string list prog" where
  "install_each w project_dir failed_packages [] = ret failed_packages"
| "install_each w project_dir failed_packages (package # rest) =
     andthen (install_package w package project_dir True)
       (\<lambda>ok. install_each w project_dir
               (if ok then failed_packages else failed_packages @ [package]) rest)"

definition install_optional_packages :: "world \<Rightarrow> string \<Rightarrow> path \<Rightarrow> unit prog" where
  "install_optional_packages w nuget implementation_project_dir =
     (if nuget \<noteq> [] \<and> lower nuget \<noteq> ''none'' then
        andthen (install_each w implementation_project_dir [] (optional_packages nuget))
          (\<lambda>failed_packages. ret ())
      else ret ())"

definition scaffold_xunit :: "string list" where
  "scaffold_xunit = [''dotnet'', ''new'', ''xunit'', ''--framework'', TARGET_FRAMEWORK]"

definition create_llm_test_project :: "world \<Rightarrow> path \<Rightarrow> string \<Rightarrow> path \<Rightarrow> string \<Rightarrow> path prog" where
  "create_llm_test_project w class_dir class_name implementation_project_dir test_code =
     (let llm_test_dir = joinpath class_dir ''LLMGeneratedTests''
      in andthen
           (catching
              (andthen (run_unit w (Some llm_test_dir) (scaffold_xunit @ [''--no-restore'']) True None)
                 (\<lambda>_. andthen
                        (for_each [joinpath llm_test_dir ''UnitTest1.cs'',
                                   joinpath llm_test_dir ''GlobalUsings.cs''] (remove_if_exists w))
                        (\<lambda>_. andthen
                               (install_required w llm_test_dir
                                  [''xunit'', ''xunit.runner.visualstudio'', ''Microsoft.NET.Test.Sdk'',
                                   ''Moq''])
                               (\<lambda>_. andthen
                                      (run_unit w (Some llm_test_dir)
                                         [''dotnet'', ''add'', ''reference'',
                                          joinpath implementation_project_dir (class_name @ ''.csproj'')]
                                         True None)
                                      (\<lambda>_. fs w (WriteText (joinpath llm_test_dir (class_name @ ''Tests.cs''))
                                                    test_code))))))
              is_Exception
              (\<lambda>e. throw (ProjectSetupError ''Failed to setup LLM test project'' (stderr_or_str w e))))
           (\<lambda>_. ret llm_test_dir))"

text \<open>
  \<^verbatim>\<open>_create_ground_truth_tests\<close> has two \<^verbatim>\<open>try\<close> blocks, which are named
  here: the first sets the test project up, the second runs the generator. Between them the
  variable \<^verbatim>\<open>result\<close> is assigned only where a chat model is given; reading it
  unassigned raises.
\<close>

definition setup_ground_truth_project :: "world \<Rightarrow> path \<Rightarrow> string \<Rightarrow> path \<Rightarrow> unit prog" where
  "setup_ground_truth_project w gt_test_dir class_name implementation_project_dir =
     catching
       (andthen (run_unit w (Some gt_test_dir) scaffold_xunit True None)
          (\<lambda>_. andthen
                 (for_each [joinpath gt_test_dir ''UnitTest1.cs'',
                            joinpath gt_test_dir ''GlobalUsings.cs''] (remove_if_exists w))
                 (\<lambda>_. andthen
                        (install_required w gt_test_dir
                           [''xunit'', ''xunit.runner.visualstudio'', ''Microsoft.NET.Test.Sdk''])
                        (\<lambda>_. run_unit w (Some gt_test_dir)
                               [''dotnet'', ''add'', ''reference'',
                                joinpath implementation_project_dir (class_name @ ''.csproj'')]
                               True None))))
       is_Exception
       (\<lambda>e. throw (ProjectSetupError ''Failed to setup ground truth tests'' (stderr_or_str w e)))"

definition run_test_generator ::
    "world \<Rightarrow> path \<Rightarrow> path \<Rightarrow> path \<Rightarrow> path \<Rightarrow> string option \<Rightarrow> string prog" where
  "run_test_generator w gt_test_dir code_path yaml generated_test_path mapping =
     catching
       (andthen
          (run w (Some gt_test_dir)
             ([generator_exe w, code_path, yaml] @
              (case mapping of
                 Some m \<Rightarrow> if m \<noteq> [] then [''--paramMap'', m] else []
               | None \<Rightarrow> []))
             True (Some 30))
          (\<lambda>p. andthen (path_exists w generated_test_path)
                 (\<lambda>b. andthen (if b then fs w (ReadText generated_test_path) else ret ())
                        (\<lambda>_. ret (stdout p @ ''\<newline>'' @ stderr p)))))
       is_Exception
       (\<lambda>e. lift (concat_lines (stdout_or_empty e) (stderr_or_str w e)))"

definition create_ground_truth_tests ::
    "world \<Rightarrow> path \<Rightarrow> string \<Rightarrow> path \<Rightarrow> chat_model option \<Rightarrow> path \<Rightarrow> (string \<times> ActionMapInfo option) prog" where
  "create_ground_truth_tests w class_dir class_name implementation_project_dir llm yaml =
     (let gt_test_dir = joinpath class_dir ''GroundTruthTests'';
          code_path = joinpath implementation_project_dir (class_name @ ''.cs'');
          generated_test_path = joinpath gt_test_dir (class_name @ ''Tests.cs'')
      in andthen (setup_ground_truth_project w gt_test_dir class_name implementation_project_dir)
           (\<lambda>_. andthen
                  (case llm of
                     None \<Rightarrow> ret None
                   | Some m \<Rightarrow>
                       andthen (validate_action_map w implementation_project_dir class_name (Some yaml) m)
                         (\<lambda>r. ret (Some r)))
                  (\<lambda>assigned.
                     case assigned of
                       None \<Rightarrow> throw (UnboundLocalError ''result'')
                     | Some result \<Rightarrow>
                         if \<not> should_continue result then
                           ret (result_output result, result_info result)
                         else
                           andthen
                             (run_test_generator w gt_test_dir code_path yaml generated_test_path
                                (param_mapping result))
                             (\<lambda>odc_raw_output. ret (odc_raw_output, result_info result)))))"

definition create_solution_and_add_projects ::
    "world \<Rightarrow> path \<Rightarrow> string \<Rightarrow> path \<Rightarrow> path \<Rightarrow> path option \<Rightarrow> unit prog" where
  "create_solution_and_add_projects w class_dir class_name implementation_project_dir llm_test_dir yaml =
     (let gt_dir = joinpath class_dir ''GroundTruthTests''
      in catching
           (andthen (run_unit w (Some class_dir) [''dotnet'', ''new'', ''sln''] True None)
              (\<lambda>_. andthen (if yaml \<noteq> None then path_exists w gt_dir else ret False)
                     (\<lambda>with_gt.
                        andthen
                          (for_each
                             ([joinpath implementation_project_dir (class_name @ ''.csproj''),
                               joinpath llm_test_dir ''LLMGeneratedTests.csproj''] @
                              (if with_gt then [joinpath gt_dir ''GroundTruthTests.csproj''] else []))
                             (\<lambda>prj. catching
                                      (run_unit w (Some class_dir) [''dotnet'', ''sln'', ''add'', prj] True None)
                                      is_Exception
                                      (\<lambda>e. ret ())))
                          (\<lambda>_. fs w (ListTree class_dir)))))
           is_Exception
           (\<lambda>e. throw (ProjectSetupError ''Failed to create solution'' (stderr_or_str w e))))"

definition create_and_setup_projects ::
    "world \<Rightarrow> path \<Rightarrow> string \<Rightarrow> string \<Rightarrow> string \<Rightarrow> string \<Rightarrow> chat_model option \<Rightarrow> path option \<Rightarrow>
     (string \<times> ActionMapInfo option) prog" where
  "create_and_setup_projects w class_dir class_name code test_code nuget llm yaml =
     andthen (create_implementation_project w class_dir class_name code)
       (\<lambda>implementation_project_dir.
          andthen (install_optional_packages w nuget implementation_project_dir)
            (\<lambda>_. andthen
                   (create_llm_test_project w class_dir class_name implementation_project_dir test_code)
                   (\<lambda>llm_test_dir.
                      andthen
                        (case yaml of
                           None \<Rightarrow> ret ([], None)
                         | Some y \<Rightarrow>
                             create_ground_truth_tests w class_dir class_name implementation_project_dir llm y)
                        (\<lambda>(odc_raw_output, info).
                           andthen
                             (create_solution_and_add_projects w class_dir class_name
                                implementation_project_dir llm_test_dir yaml)
                             (\<lambda>_. ret (odc_raw_output, info))))))"

section \<open>Build and test stages (\<^verbatim>\<open>build.py\<close>, \<^verbatim>\<open>test.py\<close>)\<close>

definition build_command :: "string list" where
  "build_command = [''dotnet'', ''build'', ''--nologo'', ''-nowarn:CS9057'']"

definition test_command :: "string list" where
  "test_command = [''dotnet'', ''test'', ''--no-build'', ''--nologo'']"

definition build_solution :: "world \<Rightarrow> path \<Rightarrow> (BuildMetrics \<times> string) prog" where
  "build_solution w class_dir =
     andthen
       (catching
          (andthen (run w (Some class_dir) build_command False None)
             (\<lambda>p. ret (Inr (stdout p @ ''\<newline>'' @ stderr p))))
          is_Exception
          (\<lambda>e. ret (Inl (\<lparr>warnings = [],
                           errors = [''Build encountered an unexpected error: '' @ str_exn w e],
                           success = False, duration_ms = 0, raw_output = []\<rparr>, []))))
       (\<lambda>r. case r of
               Inl early \<Rightarrow> ret early
             | Inr build_stdout \<Rightarrow>
                 andthen (lift (parse_build_output (time_elapsed w) build_stdout))
                   (\<lambda>metrics. ret (metrics, build_stdout)))"

definition run_tests :: "world \<Rightarrow> path \<Rightarrow> TestResult prog" where
  "run_tests w project_dir =
     catching
       (andthen (run w (Some project_dir) test_command False (Some 480))
          (\<lambda>p. lift (parse_test_output (stdout p @ ''\<newline>'' @ stderr p))))
       is_Exception
       (\<lambda>ex. ret \<lparr>passed = 0, failed = 1, skipped = 0, test_duration_ms = 0,
                   error_details = Some [''Test execution failed: '' @ str_exn w ex],
                   test_raw_output = []\<rparr>)"

definition run_all_tests :: "world \<Rightarrow> path \<Rightarrow> path option \<Rightarrow> (TestResult \<times> TestResult option) prog" where
  "run_all_tests w class_dir yaml =
     andthen (run_tests w (joinpath class_dir ''LLMGeneratedTests''))
       (\<lambda>llm_results.
          if yaml \<noteq> None then
            andthen (path_exists w (joinpath class_dir ''GroundTruthTests''))
              (\<lambda>b. if b then
                      andthen (run_tests w (joinpath class_dir ''GroundTruthTests''))
                        (\<lambda>gt_results. ret (llm_results, Some gt_results))
                    else ret (llm_results, None))
          else ret (llm_results, None))"

section \<open>The orchestrator (\<^verbatim>\<open>utils.py\<close>, \<^verbatim>\<open>workflow.py\<close>)\<close>

definition extract_class_name :: "world \<Rightarrow> string \<Rightarrow> string prog" where
  "extract_class_name w code =
     andthen (fs w (CreateTemp (tmp_file w)))
       (\<lambda>_. ensuring
              (andthen (fs w (WriteText (tmp_file w) code))
                 (\<lambda>_. andthen (run w None [generator_exe w, ''--classname'', tmp_file w] True (Some 30))
                        (\<lambda>result.
                           let class_name = strip (stdout result)
                           in if class_name = [] then
                                throw (ValueError ''CCAGTestGenerator did not return a class name'')
                              else ret class_name)))
              (fs w (Unlink (tmp_file w))))"

text \<open>
  The condition of the \<^verbatim>\<open>if\<close> that skips the build. Its last disjunct converts the
  text before the first parenthesis of the implementation summary,
  \<^verbatim>\<open>int(action_map_info.implementation.split("(")[0])\<close>, and can raise.
\<close>

definition reported_actions :: "ActionMapInfo \<Rightarrow> exn + int" where
  "reported_actions a = sbind (index (split CHR ''('' (implementation a)) 0) py_int"

definition skip_build :: "path option \<Rightarrow> ActionMapInfo option \<Rightarrow> exn + bool" where
  "skip_build yaml info =
     (if yaml = None then Inr False
      else case info of
             None \<Rightarrow> Inr True
           | Some a \<Rightarrow>
               if \<not> matches a then Inr True
               else sbind (reported_actions a) (\<lambda>n. Inr (n > 1)))"

text \<open>The report of a run that ends before the build.\<close>

definition unattempted :: "pyobj \<Rightarrow> ValidationMetrics" where
  "unattempted out =
     \<lparr>build_metrics = default_build_metrics, llm_test_results = None,
      ground_truth_test_results = None, odc_generator_output = out, solution_dir = None,
      action_map_info = None\<rparr>"

text \<open>
  The \<^verbatim>\<open>return\<close> statements of \<^verbatim>\<open>validate_generated_code\<close>, in the order of the
  source; \<open>BuildFailed\<close> and \<open>Tested\<close> are the two branches that reach the last one.
\<close>

datatype exit_point =
    NoPublicClass
  | ClassNameFailed
  | SetupError
  | PackageError
  | SetupFailed
  | BuildSkipped
  | BuildFailed
  | Tested

text \<open>The retention step at the end of the function.\<close>

definition retain :: "world \<Rightarrow> path \<Rightarrow> string \<Rightarrow> path option \<Rightarrow> bool \<Rightarrow> BuildMetrics \<Rightarrow>
    ValidationMetrics \<Rightarrow> ValidationMetrics prog" where
  "retain w class_dir class_name target_dir retain_on_failure metrics result =
     (case target_dir of
        None \<Rightarrow> ret result
      | Some target \<Rightarrow>
          if success metrics \<or> retain_on_failure then
            (let destination = joinpath target class_name
             in catching
                  (andthen (path_exists w destination)
                     (\<lambda>b. andthen (if b then fs w (Rmtree destination) else ret ())
                            (\<lambda>_. andthen (fs w (Copytree class_dir destination [''bin'', ''obj'']))
                                   (\<lambda>_. ret (result\<lparr>solution_dir := Some destination\<rparr>)))))
                  is_Exception
                  (\<lambda>e. ret result))
          else ret result)"

definition build_and_test :: "world \<Rightarrow> path \<Rightarrow> string \<Rightarrow> path option \<Rightarrow> path option \<Rightarrow> bool \<Rightarrow>
    string \<Rightarrow> ActionMapInfo option \<Rightarrow> (exit_point \<times> ValidationMetrics) prog" where
  "build_and_test w class_dir class_name yaml target_dir retain_on_failure odc_generator_logs info =
     andthen (build_solution w class_dir)
       (\<lambda>(metrics, build_stdout).
          andthen
            (if \<not> success metrics then
               ret (BuildFailed,
                    \<lparr>build_metrics = metrics, llm_test_results = None,
                     ground_truth_test_results = None,
                     odc_generator_output = PyStr odc_generator_logs,
                     solution_dir = (if retain_on_failure then Some class_dir else None),
                     action_map_info = None\<rparr>)
             else
               andthen (run_all_tests w class_dir yaml)
                 (\<lambda>(llm_results, gt_results).
                    ret (Tested,
                         \<lparr>build_metrics = metrics, llm_test_results = Some llm_results,
                          ground_truth_test_results = gt_results,
                          odc_generator_output = PyStr odc_generator_logs,
                          solution_dir = Some class_dir, action_map_info = info\<rparr>)))
            (\<lambda>(exit, result).
               andthen (retain w class_dir class_name target_dir retain_on_failure metrics result)
                 (\<lambda>result'. ret (exit, result'))))"

text \<open>
  \<open>validate_run\<close> is \<^verbatim>\<open>validate_generated_code\<close> together with the \<^verbatim>\<open>return\<close>
  statement that ended it. Its two \<^verbatim>\<open>try\<close> statements are \<open>resolve_class_name\<close> and
  \<open>prepare_projects\<close>, which yield either the report of an early \<^verbatim>\<open>return\<close> or the
  value to go on with; \<open>skip_or_build\<close> is the rest of the function. The chat model is the
  parameter of the function; the field of the same name in the inputs is not read.
\<close>

definition resolve_class_name :: "world \<Rightarrow> string \<Rightarrow> ((exit_point \<times> ValidationMetrics) + string) prog" where
  "resolve_class_name w code =
     catching
       (andthen (extract_class_name w code) (\<lambda>class_name. ret (Inr class_name)))
       is_Exception
       (\<lambda>e. if is_ValueError e
             then ret (Inl (NoPublicClass, unattempted (PyStr (str_exn w e))))
             else ret (Inl (ClassNameFailed, unattempted (stderr_or_str w e))))"

definition prepare_projects :: "world \<Rightarrow> path \<Rightarrow> string \<Rightarrow> ValidationInputs \<Rightarrow> chat_model option \<Rightarrow>
    ((exit_point \<times> ValidationMetrics) + (string \<times> ActionMapInfo option)) prog" where
  "prepare_projects w class_dir class_name validation_inputs llm =
     catching
       (andthen
          (create_and_setup_projects w class_dir class_name
             (implementation_code validation_inputs) (unit_test_code validation_inputs)
             (nuget_packages validation_inputs) llm (yaml_path validation_inputs))
          (\<lambda>r. ret (Inr r)))
       is_Exception
       (\<lambda>e. case e of
               ProjectSetupError _ output \<Rightarrow> ret (Inl (SetupError, unattempted output))
             | PackageInstallationError _ error_output \<Rightarrow>
                 ret (Inl (PackageError, unattempted (PyStr error_output)))
             | _ \<Rightarrow> ret (Inl (SetupFailed, unattempted (stderr_or_str w e))))"

definition skip_or_build :: "world \<Rightarrow> path \<Rightarrow> string \<Rightarrow> path option \<Rightarrow> path option \<Rightarrow> bool \<Rightarrow>
    string \<Rightarrow> ActionMapInfo option \<Rightarrow> (exit_point \<times> ValidationMetrics) prog" where
  "skip_or_build w class_dir class_name yaml target_dir retain_on_failure odc_generator_logs info =
     andthen (lift (skip_build yaml info))
       (\<lambda>skip.
          if skip then
            ret (BuildSkipped, (unattempted (PyStr odc_generator_logs))\<lparr>action_map_info := info\<rparr>)
          else
            build_and_test w class_dir class_name yaml target_dir retain_on_failure
              odc_generator_logs info)"

definition validate_run :: "world \<Rightarrow> ValidationInputs \<Rightarrow> chat_model option \<Rightarrow> path option \<Rightarrow> bool \<Rightarrow>
    (exit_point \<times> ValidationMetrics) prog" where
  "validate_run w validation_inputs llm target_dir retain_on_failure =
     andthen (resolve_class_name w (implementation_code validation_inputs))
       (\<lambda>named.
          case named of
            Inl early \<Rightarrow> ret early
          | Inr class_name \<Rightarrow>
              (let class_dir = joinpath (tmp_dir w) class_name
               in andthen (prepare_projects w class_dir class_name validation_inputs llm)
                    (\<lambda>prepared.
                       case prepared of
                         Inl early \<Rightarrow> ret early
                       | Inr (odc_generator_logs, info) \<Rightarrow>
                           skip_or_build w class_dir class_name (yaml_path validation_inputs)
                             target_dir retain_on_failure odc_generator_logs info)))"

definition validate_generated_code :: "world \<Rightarrow> ValidationInputs \<Rightarrow> chat_model option \<Rightarrow> path option \<Rightarrow> bool \<Rightarrow>
    ValidationMetrics prog" where
  "validate_generated_code w validation_inputs llm target_dir retain_on_failure =
     andthen (validate_run w validation_inputs llm target_dir retain_on_failure)
       (\<lambda>(exit, result). ret result)"

section \<open>Observing a run\<close>

text \<open>The build or the test command was run: the build or the test stage was entered.\<close>

definition stage_event :: "event \<Rightarrow> bool" where
  "stage_event ev =
     (case ev of Exec _ argv _ _ \<Rightarrow> argv = build_command \<or> argv = test_command | _ \<Rightarrow> False)"

fun is_build :: "event \<Rightarrow> bool" where
  "is_build (Exec _ argv _ _) = (argv = build_command)"
| "is_build _ = False"

fun is_Compared :: "event \<Rightarrow> bool" where
  "is_Compared (Compared _) = True"
| "is_Compared _ = False"

text \<open>Removing or copying a directory tree: the two operations of the retention step.\<close>

fun is_copy :: "event \<Rightarrow> bool" where
  "is_copy (Fs (Rmtree _) _) = True"
| "is_copy (Fs (Copytree _ _ _) _) = True"
| "is_copy _ = False"

fun is_Invoke :: "event \<Rightarrow> bool" where
  "is_Invoke (Invoke _ _ _) = True"
| "is_Invoke _ = False"

definition plain :: "event \<Rightarrow> bool" where
  "plain ev \<longleftrightarrow> \<not> stage_event ev \<and> \<not> is_Compared ev \<and> \<not> is_copy ev"

text \<open>
  \<open>emits m Q\<close>: from every history, \<open>m\<close> extends the history by some events \<open>evs\<close> and ends
  with a result \<open>r\<close> such that \<open>Q r evs\<close>.
\<close>

definition emits :: "'a prog \<Rightarrow> ((exn + 'a) \<Rightarrow> event list \<Rightarrow> bool) \<Rightarrow> bool" where
  "emits m Q \<longleftrightarrow> (\<forall>tr. \<exists>evs. snd (m tr) = tr @ evs \<and> Q (fst (m tr)) evs)"

text \<open>
  \<open>tame \<phi> m\<close>: all events of \<open>m\<close> satisfy \<open>\<phi>\<close>, and what \<open>m\<close> raises is caught by
  \<^verbatim>\<open>except Exception\<close>.
\<close>

definition tame :: "(event \<Rightarrow> bool) \<Rightarrow> 'a prog \<Rightarrow> bool" where
  "tame \<phi> m \<longleftrightarrow>
     emits m (\<lambda>r evs. (\<forall>e. r = Inl e \<longrightarrow> is_Exception e) \<and> (\<forall>ev \<in> set evs. \<phi> ev))"

text \<open>
  The events of a retention step that ends with the copy in place, and of one that fails:
  the target is looked up, an existing directory is removed first, and the working tree is
  copied without the directories \<^verbatim>\<open>bin\<close> and \<^verbatim>\<open>obj\<close>.
\<close>

definition copy_done :: "path \<Rightarrow> path \<Rightarrow> event list \<Rightarrow> bool" where
  "copy_done src dst evs \<longleftrightarrow>
     evs = [Exists dst False, Fs (Copytree src dst [''bin'', ''obj'']) None] \<or>
     evs = [Exists dst True, Fs (Rmtree dst) None, Fs (Copytree src dst [''bin'', ''obj'']) None]"

definition copy_failed :: "path \<Rightarrow> path \<Rightarrow> event list \<Rightarrow> bool" where
  "copy_failed src dst evs \<longleftrightarrow>
     (\<exists>msg. evs = [Exists dst False, Fs (Copytree src dst [''bin'', ''obj'']) (Some msg)] \<or>
            evs = [Exists dst True, Fs (Rmtree dst) (Some msg)] \<or>
            evs = [Exists dst True, Fs (Rmtree dst) None,
                   Fs (Copytree src dst [''bin'', ''obj'']) (Some msg)])"

text \<open>An event of the build and test stages: no comparison, no removal, no copy.\<close>

definition inner :: "event \<Rightarrow> bool" where
  "inner ev \<longleftrightarrow> \<not> is_Compared ev \<and> \<not> is_copy ev"

text \<open>
  What \<open>build_and_test\<close> guarantees: the build command comes first; an exception leaves
  nothing copied; a build that failed ends at \<open>BuildFailed\<close> with no test results and no
  action-map information, a build that succeeded at \<open>Tested\<close>; and the retention step
  runs exactly if a target is given and the build succeeded or retention on failure was
  asked for, after events that neither remove nor copy.
\<close>

definition after_build ::
    "path \<Rightarrow> string \<Rightarrow> path option \<Rightarrow> bool \<Rightarrow> ActionMapInfo option \<Rightarrow>
     (exn + exit_point \<times> ValidationMetrics) \<Rightarrow> event list \<Rightarrow> bool" where
  "after_build cd cn target flag info r evs \<longleftrightarrow>
     (\<exists>outcome rest. evs = Exec (Some cd) build_command None outcome # rest) \<and>
     (\<forall>ev \<in> set evs. \<not> is_Compared ev) \<and>
     (\<forall>e. r = Inl e \<longrightarrow> \<not> list_ex is_copy evs) \<and>
     (\<forall>exit rep. r = Inr (exit, rep) \<longrightarrow>
        ((exit = BuildFailed \<and> \<not> success (build_metrics rep) \<and> action_map_info rep = None \<and>
          llm_test_results rep = None \<and> ground_truth_test_results rep = None) \<or>
         (exit = Tested \<and> success (build_metrics rep) \<and> action_map_info rep = info \<and>
          llm_test_results rep \<noteq> None)) \<and>
        (target = None \<or> \<not> (success (build_metrics rep) \<or> flag) \<longrightarrow>
           \<not> list_ex is_copy evs \<and>
           solution_dir rep = (if exit = Tested \<or> flag then Some cd else None)) \<and>
        (\<forall>t. target = Some t \<and> (success (build_metrics rep) \<or> flag) \<longrightarrow>
           (\<exists>pre tail. evs = pre @ tail \<and> \<not> list_ex is_copy pre \<and>
              ((solution_dir rep = Some (joinpath t cn) \<and> copy_done cd (joinpath t cn) tail) \<or>
               (solution_dir rep = Some cd \<and> copy_failed cd (joinpath t cn) tail)))))"

text \<open>The exits of a run before the decision to build.\<close>

definition early_exit :: "exit_point \<Rightarrow> bool" where
  "early_exit x \<longleftrightarrow> x \<in> {NoPublicClass, ClassNameFailed, SetupError, PackageError, SetupFailed}"

text \<open>
  What every run guarantees: an exception leaves nothing copied; a run that ends at
  \<open>BuildFailed\<close> or \<open>Tested\<close> consists of events that neither build, test, remove nor copy,
  followed by the build and what comes after it; every other run has no such event and
  reports the build as not attempted.
\<close>

definition run_shape ::
    "world \<Rightarrow> path option \<Rightarrow> bool \<Rightarrow> (exn + exit_point \<times> ValidationMetrics) \<Rightarrow> event list \<Rightarrow> bool" where
  "run_shape w target flag r evs \<longleftrightarrow>
     (\<forall>e. r = Inl e \<longrightarrow> \<not> list_ex is_copy evs) \<and>
     (\<forall>x rep. r = Inr (x, rep) \<longrightarrow>
        (if x = BuildFailed \<or> x = Tested then
           (\<exists>cn info pre post. evs = pre @ post \<and>
              (\<forall>ev \<in> set pre. \<not> stage_event ev \<and> \<not> is_copy ev) \<and>
              after_build (joinpath (tmp_dir w) cn) cn target flag info r post)
         else (\<forall>ev \<in> set evs. \<not> stage_event ev \<and> \<not> is_copy ev) \<and>
              build_metrics rep = default_build_metrics \<and> llm_test_results rep = None \<and>
              ground_truth_test_results rep = None \<and> solution_dir rep = None \<and>
              (x \<noteq> BuildSkipped \<longrightarrow> action_map_info rep = None)))"

text \<open>
  The comparison forbids the build: the summaries differ, or the implementation summary
  reports more than one action.
\<close>

definition mismatch :: "ActionMapInfo \<Rightarrow> bool" where
  "mismatch a \<longleftrightarrow> \<not> matches a \<or> (\<exists>n. reported_actions a = Inr n \<and> 1 < n)"

section \<open>Sample inputs and worlds\<close>

text \<open>A build output with a repeated warning, an error and the success marker.\<close>

definition sample_build_output :: string where
  "sample_build_output =
     ''a.cs(1,1): warning CS1: w\<newline>a.cs(2,1): error CS2: e\<newline>a.cs(1,1): warning CS1: w\<newline>Build succeeded.\<newline>b.cs(3,3): warning CS3: v''"

definition sample_build_metrics :: BuildMetrics where
  "sample_build_metrics =
     \<lparr>warnings = [''a.cs(1,1): warning CS1: w'', ''b.cs(3,3): warning CS3: v''],
      errors = [''a.cs(2,1): error CS2: e''], success = False, duration_ms = 0,
      raw_output = sample_build_output\<rparr>"




text \<open>
  A world in which every command succeeds: the analysis tool names the class \<open>Calc\<close> and
  prints the given implementation summary, the build and the tests print the given
  outputs, no file exists beforehand, the ground truth declares actions with the given
  numbers of parameters, and the chat model gives the given reply.
\<close>

definition sample_proc ::
    "string \<Rightarrow> string \<Rightarrow> string \<Rightarrow> event list \<Rightarrow> path option \<Rightarrow> string list \<Rightarrow> nat option \<Rightarrow> proc_outcome" where
  "sample_proc impl_map build_out test_out tr cwd argv timeout =
     (if argv = [''gen'', ''--classname'', ''/tmp/f.cs''] then Exited 0 ''Calc'' []
      else if argv = [''gen'', ''--map'', ''/tmp/t/Calc/Calc/Calc.cs''] then Exited 0 impl_map []
      else if argv = build_command then Exited 0 build_out []
      else if argv = test_command then Exited 0 test_out []
      else Exited 0 [] [])"

definition sample_world :: "string \<Rightarrow> nat list \<Rightarrow> string \<Rightarrow> llm_outcome \<Rightarrow> world" where
  "sample_world impl_map counts build_out reply =
     \<lparr>generator_exe = ''gen'', tmp_dir = ''/tmp/t'', tmp_file = ''/tmp/f.cs'',
      proc = sample_proc impl_map build_out
               ''Passed!  - Failed: 0, Passed: 1, Skipped: 0, Duration: 5 ms'',
      fs_error = (\<lambda>_ _. None), fs_exists = (\<lambda>_ _. False),
      yaml_file = (\<lambda>_ _. ParamCounts counts),
      llm_reply = (\<lambda>_ _ _. reply),
      exn_text = (\<lambda>_. ''error''), time_elapsed = (\<lambda>_. Some 0)\<rparr>"

definition sample_inputs :: ValidationInputs where
  "sample_inputs =
     \<lparr>implementation_code = ''class Calc {}'', unit_test_code = ''class CalcTests {}'',
      nuget_packages = ''None'', yaml_path = Some ''gt.yaml'', search_term_llm = None\<rparr>"

definition sample_model :: chat_model where
  "sample_model = ChatModel ''assistant''"

text \<open>
  The implementation has two actions without parameters, the ground truth one action with
  two.
\<close>

definition mismatch_world :: world where
  "mismatch_world = sample_world ''2(0)'' [2] ''Build succeeded.'' (Content [])"

definition mismatch_info :: ActionMapInfo where
  "mismatch_info = \<lparr>implementation = ''2(0)'', ground_truth = ''1(2)'', matches = False\<rparr>"

text \<open>One action with one parameter on both sides, and a build that fails.\<close>

definition failing_build_world :: world where
  "failing_build_world =
     sample_world ''1(1)'' [1] ''Calc.cs(1,1): error CS1002: ; expected'' (Content [])"

definition matching_info :: ActionMapInfo where
  "matching_info = \<lparr>implementation = ''1(1)'', ground_truth = ''1(1)'', matches = True\<rparr>"

text \<open>
  One action with two parameters on both sides, a reply of the chat model that is no
  mapping, and a build that succeeds.
\<close>

definition chatty_world :: world where
  "chatty_world = sample_world ''1(2)'' [2] ''Build succeeded.'' (Content ''I cannot tell.'')"

section \<open>Reasoning about programs\<close>

lemma emitsD: "emits m Q \<Longrightarrow> m tr = (r, tr') \<Longrightarrow> \<exists>evs. tr' = tr @ evs \<and> Q r evs"
  unfolding emits_def by (metis fst_conv snd_conv)

lemma emitsI: "(\<And>tr. \<exists>evs. snd (m tr) = tr @ evs \<and> Q (fst (m tr)) evs) \<Longrightarrow> emits m Q"
  unfolding emits_def by blast

lemma emits_weaken: "emits m P \<Longrightarrow> (\<And>r evs. P r evs \<Longrightarrow> Q r evs) \<Longrightarrow> emits m Q"
  unfolding emits_def by blast


lemma emits_ret: "Q (Inr x) [] \<Longrightarrow> emits (ret x) Q"
  by (simp add: emits_def ret_def)

lemma emits_throw: "Q (Inl e) [] \<Longrightarrow> emits (throw e) Q"
  by (simp add: emits_def throw_def)

lemma emits_lift: "Q r [] \<Longrightarrow> emits (lift r) Q"
  by (simp add: emits_def lift_def)

lemma emits_andthen:
  assumes "emits m (\<lambda>r evs. case r of Inl e \<Rightarrow> Q (Inl e) evs
                                     | Inr x \<Rightarrow> emits (f x) (\<lambda>r' evs'. Q r' (evs @ evs')))"
  shows "emits (andthen m f) Q"
proof (rule emitsI)
  fix tr
  obtain r tr1 where m: "m tr = (r, tr1)" by (cases "m tr")
  from emitsD [OF assms m] obtain evs where t: "tr1 = tr @ evs"
    and p: "case r of Inl e \<Rightarrow> Q (Inl e) evs | Inr x \<Rightarrow> emits (f x) (\<lambda>r' evs'. Q r' (evs @ evs'))"
    by blast
  show "\<exists>evs. snd (andthen m f tr) = tr @ evs \<and> Q (fst (andthen m f tr)) evs"
  proof (cases r)
    case (Inl e)
    then show ?thesis using m t p by (simp add: andthen_def)
  next
    case (Inr x)
    obtain r2 tr2 where f: "f x tr1 = (r2, tr2)" by (cases "f x tr1")
    from p Inr have "emits (f x) (\<lambda>r' evs'. Q r' (evs @ evs'))" by simp
    from emitsD [OF this f] obtain evs' where "tr2 = tr1 @ evs'" "Q r2 (evs @ evs')" by blast
    then show ?thesis using m t f Inr by (simp add: andthen_def)
  qed
qed

lemma emits_catching:
  assumes "emits m (\<lambda>r evs. case r of
                Inl e \<Rightarrow> if c e then emits (h e) (\<lambda>r' evs'. Q r' (evs @ evs')) else Q (Inl e) evs
              | Inr x \<Rightarrow> Q (Inr x) evs)"
  shows "emits (catching m c h) Q"
proof (rule emitsI)
  fix tr
  obtain r tr1 where m: "m tr = (r, tr1)" by (cases "m tr")
  from emitsD [OF assms m] obtain evs where t: "tr1 = tr @ evs"
    and p: "case r of
                Inl e \<Rightarrow> if c e then emits (h e) (\<lambda>r' evs'. Q r' (evs @ evs')) else Q (Inl e) evs
              | Inr x \<Rightarrow> Q (Inr x) evs"
    by blast
  show "\<exists>evs. snd (catching m c h tr) = tr @ evs \<and> Q (fst (catching m c h tr)) evs"
  proof (cases r)
    case (Inr x)
    then show ?thesis using m t p by (simp add: catching_def)
  next
    case (Inl e)
    show ?thesis
    proof (cases "c e")
      case False
      then show ?thesis using m t p Inl by (simp add: catching_def)
    next
      case True
      obtain r2 tr2 where f: "h e tr1 = (r2, tr2)" by (cases "h e tr1")
      from p Inl True have "emits (h e) (\<lambda>r' evs'. Q r' (evs @ evs'))" by simp
      from emitsD [OF this f] obtain evs' where "tr2 = tr1 @ evs'" "Q r2 (evs @ evs')" by blast
      then show ?thesis using m t f Inl True by (simp add: catching_def)
    qed
  qed
qed

lemma emits_ensuring:
  assumes "emits m (\<lambda>r evs. emits cleanup (\<lambda>r' evs'.
             case r' of Inl e \<Rightarrow> Q (Inl e) (evs @ evs') | Inr _ \<Rightarrow> Q r (evs @ evs')))"
  shows "emits (ensuring m cleanup) Q"
proof (rule emitsI)
  fix tr
  obtain r tr1 where m: "m tr = (r, tr1)" by (cases "m tr")
  from emitsD [OF assms m] obtain evs where t: "tr1 = tr @ evs"
    and p: "emits cleanup (\<lambda>r' evs'.
             case r' of Inl e \<Rightarrow> Q (Inl e) (evs @ evs') | Inr _ \<Rightarrow> Q r (evs @ evs'))"
    by blast
  obtain r2 tr2 where f: "cleanup tr1 = (r2, tr2)" by (cases "cleanup tr1")
  from emitsD [OF p f] obtain evs' where "tr2 = tr1 @ evs'"
    "case r2 of Inl e \<Rightarrow> Q (Inl e) (evs @ evs') | Inr _ \<Rightarrow> Q r (evs @ evs')" by blast
  then show "\<exists>evs. snd (ensuring m cleanup tr) = tr @ evs \<and> Q (fst (ensuring m cleanup tr)) evs"
    using m t f by (cases r2) (simp_all add: ensuring_def)
qed

lemma emits_run:
  assumes "\<And>outcome. Q (completed_or_raised check outcome) [Exec cwd argv timeout outcome]"
  shows "emits (run w cwd argv check timeout) Q"
  by (rule emitsI) (auto simp: run_def Let_def intro!: assms)

lemma emits_fs:
  assumes "\<And>failure. Q (case failure of None \<Rightarrow> Inr () | Some msg \<Rightarrow> Inl (OSError msg)) [Fs op failure]"
  shows "emits (fs w op) Q"
  by (rule emitsI) (auto simp: fs_def Let_def intro!: assms)

lemma emits_path_exists:
  assumes "\<And>b. Q (Inr b) [Exists p b]"
  shows "emits (path_exists w p) Q"
  by (rule emitsI) (auto simp: path_exists_def Let_def intro!: assms)

lemma emits_sleep: "Q (Inr ()) [Sleep n] \<Longrightarrow> emits (sleep n) Q"
  by (rule emitsI) (auto simp: sleep_def)

lemma emits_load_yaml:
  assumes "\<And>y. Q (Inr y) [LoadYaml p y]"
  shows "emits (load_yaml w p) Q"
  by (rule emitsI) (auto simp: load_yaml_def Let_def intro!: assms)

lemma emits_invoke:
  assumes "\<And>reply. Q (Inr reply) [Invoke m msg reply]"
  shows "emits (invoke w m msg) Q"
  by (rule emitsI) (auto simp: invoke_def Let_def intro!: assms)

lemma emits_observe: "Q (Inr ()) [ev] \<Longrightarrow> emits (observe ev) Q"
  by (rule emitsI) (auto simp: observe_def)

lemma completed_or_raised_cases:
  "completed_or_raised check outcome = Inl e \<Longrightarrow>
     (check \<and> is_CalledProcessError e) \<or> is_TimeoutExpired e \<or> (\<exists>m. e = OSError m)"
  by (auto simp: completed_or_raised_def split: proc_outcome.splits if_splits)

lemma completed_or_raised_Exception: "completed_or_raised check outcome = Inl e \<Longrightarrow> is_Exception e"
  by (auto simp: is_Exception_def dest: completed_or_raised_cases)

lemma completed_or_raised_proper [simp]: "completed_or_raised check outcome \<noteq> Inl KeyboardInterrupt"
  using completed_or_raised_Exception [of check outcome KeyboardInterrupt]
  by (auto simp: is_Exception_def)

lemma tame_ret: "tame \<phi> (ret x)"
  unfolding tame_def by (rule emits_ret) simp

lemma tame_throw: "is_Exception e \<Longrightarrow> tame \<phi> (throw e)"
  unfolding tame_def by (rule emits_throw) simp

lemma tame_lift: "(\<And>e. r = Inl e \<Longrightarrow> is_Exception e) \<Longrightarrow> tame \<phi> (lift r)"
  unfolding tame_def by (rule emits_lift) simp

lemma tame_andthen: "tame \<phi> m \<Longrightarrow> (\<And>x. tame \<phi> (f x)) \<Longrightarrow> tame \<phi> (andthen m f)"
proof -
  assume m: "tame \<phi> m" and f: "\<And>x. tame \<phi> (f x)"
  show ?thesis
    unfolding tame_def
  proof (rule emits_andthen, rule emits_weaken [OF m [unfolded tame_def]], goal_cases)
    case (1 r evs)
    show ?case
    proof (cases r)
      case (Inl e) then show ?thesis using 1 by simp
    next
      case (Inr x)
      have "emits (f x) (\<lambda>r' evs'. (\<forall>e. r' = Inl e \<longrightarrow> is_Exception e) \<and>
                                    (\<forall>ev \<in> set (evs @ evs'). \<phi> ev))"
        by (rule emits_weaken [OF f [unfolded tame_def]]) (use 1 in auto)
      then show ?thesis using Inr by simp
    qed
  qed
qed

lemma tame_catching:
  "tame \<phi> m \<Longrightarrow> (\<And>e. is_Exception e \<Longrightarrow> c e \<Longrightarrow> tame \<phi> (h e)) \<Longrightarrow> tame \<phi> (catching m c h)"
proof -
  assume m: "tame \<phi> m" and h: "\<And>e. is_Exception e \<Longrightarrow> c e \<Longrightarrow> tame \<phi> (h e)"
  show ?thesis
    unfolding tame_def
  proof (rule emits_catching, rule emits_weaken [OF m [unfolded tame_def]], goal_cases)
    case (1 r evs)
    show ?case
    proof (cases r)
      case (Inr x) then show ?thesis using 1 by simp
    next
      case (Inl e)
      have "emits (h e) (\<lambda>r' evs'. (\<forall>e. r' = Inl e \<longrightarrow> is_Exception e) \<and>
                                    (\<forall>ev \<in> set (evs @ evs'). \<phi> ev))" if "c e"
        by (rule emits_weaken [OF h [unfolded tame_def]]) (use 1 Inl that in auto)
      then show ?thesis using Inl 1 by simp
    qed
  qed
qed

lemma tame_ensuring: "tame \<phi> m \<Longrightarrow> tame \<phi> c \<Longrightarrow> tame \<phi> (ensuring m c)"
proof -
  assume m: "tame \<phi> m" and c: "tame \<phi> c"
  show ?thesis
    unfolding tame_def
  proof (rule emits_ensuring, rule emits_weaken [OF m [unfolded tame_def]], goal_cases)
    case (1 r evs)
    show ?case
      by (rule emits_weaken [OF c [unfolded tame_def]]) (use 1 in \<open>auto split: sum.splits\<close>)
  qed
qed

lemma tame_if: "tame \<phi> m \<Longrightarrow> tame \<phi> n \<Longrightarrow> tame \<phi> (if b then m else n)"
  by simp

lemma tame_run: "(\<And>outcome. \<phi> (Exec cwd argv t outcome)) \<Longrightarrow> tame \<phi> (run w cwd argv check t)"
  unfolding tame_def by (rule emits_run) (auto dest: completed_or_raised_Exception)

lemma tame_run_unit: "(\<And>outcome. \<phi> (Exec cwd argv t outcome)) \<Longrightarrow> tame \<phi> (run_unit w cwd argv check t)"
  unfolding run_unit_def by (intro tame_andthen tame_run tame_ret)

lemma tame_fs: "(\<And>failure. \<phi> (Fs op failure)) \<Longrightarrow> tame \<phi> (fs w op)"
  unfolding tame_def by (rule emits_fs) (auto simp: is_Exception_def split: option.splits)

lemma tame_path_exists: "(\<And>b. \<phi> (Exists p b)) \<Longrightarrow> tame \<phi> (path_exists w p)"
  unfolding tame_def by (rule emits_path_exists) auto

lemma tame_sleep: "\<phi> (Sleep n) \<Longrightarrow> tame \<phi> (sleep n)"
  unfolding tame_def by (rule emits_sleep) auto

lemma tame_load_yaml: "(\<And>y. \<phi> (LoadYaml p y)) \<Longrightarrow> tame \<phi> (load_yaml w p)"
  unfolding tame_def by (rule emits_load_yaml) auto

lemma tame_invoke: "(\<And>reply. \<phi> (Invoke m msg reply)) \<Longrightarrow> tame \<phi> (invoke w m msg)"
  unfolding tame_def by (rule emits_invoke) auto

lemma tame_observe: "\<phi> ev \<Longrightarrow> tame \<phi> (observe ev)"
  unfolding tame_def by (rule emits_observe) auto

lemma tame_for_each: "(\<And>x. tame \<phi> (f x)) \<Longrightarrow> tame \<phi> (for_each xs f)"
  by (induction xs) (auto intro: tame_ret tame_andthen)

lemmas tame_intros =
  tame_ret tame_andthen tame_catching tame_ensuring tame_if tame_run tame_run_unit tame_fs
  tame_path_exists tame_sleep tame_load_yaml tame_invoke tame_observe tame_for_each

lemma plain_simps [simp]:
  "plain (Fs op failure) \<longleftrightarrow> \<not> is_copy (Fs op failure)"
  "plain (Exists p b)" "plain (Sleep n)" "plain (LoadYaml p y)" "plain (Invoke m s reply)"
  "plain (Exec cwd argv t outcome) \<longleftrightarrow> argv \<noteq> build_command \<and> argv \<noteq> test_command"
  "\<not> plain (Compared a)"
  by (auto simp: plain_def stage_event_def)

lemma stage_event_simps [simp]:
  "\<not> stage_event (Fs op failure)" "\<not> stage_event (Exists p b)" "\<not> stage_event (Sleep n)"
  "\<not> stage_event (LoadYaml p y)" "\<not> stage_event (Invoke m s reply)" "\<not> stage_event (Compared a)"
  "stage_event (Exec cwd argv t outcome) \<longleftrightarrow> argv = build_command \<or> argv = test_command"
  by (auto simp: stage_event_def)

lemma tame_remove_if_exists: "tame plain (remove_if_exists w p)"
  unfolding remove_if_exists_def by (intro tame_intros) simp_all

lemma tame_install_package: "tame plain (install_package w pkg dir allow)"
  unfolding install_package_def
  by (intro tame_intros) (auto simp: build_command_def test_command_def is_Exception_def intro!: tame_throw tame_ret)

lemma tame_install_required: "tame plain (install_required w dir pkgs)"
  unfolding install_required_def by (intro tame_intros tame_install_package)

lemma tame_install_each: "tame plain (install_each w dir acc pkgs)"
  by (induction pkgs arbitrary: acc) (auto intro!: tame_ret tame_andthen tame_install_package)

lemma tame_install_optional_packages: "tame plain (install_optional_packages w nuget dir)"
  unfolding install_optional_packages_def
  by (intro tame_intros tame_install_each)

lemma tame_create_implementation_project: "tame plain (create_implementation_project w cd cn code)"
  unfolding create_implementation_project_def Let_def
  by (intro tame_intros tame_remove_if_exists tame_install_required tame_throw)
     (auto simp: build_command_def test_command_def scaffold_classlib_def is_Exception_def
           intro!: tame_throw split: exn.splits)

lemma tame_create_llm_test_project: "tame plain (create_llm_test_project w cd cn ip code)"
  unfolding create_llm_test_project_def Let_def
  by (intro tame_intros tame_remove_if_exists tame_install_required tame_throw)
     (auto simp: build_command_def test_command_def scaffold_xunit_def is_Exception_def)

lemma tame_create_solution: "tame plain (create_solution_and_add_projects w cd cn ip lt yaml)"
  unfolding create_solution_and_add_projects_def Let_def
  by (intro tame_intros tame_throw)
     (auto simp: build_command_def test_command_def is_Exception_def)

lemma tame_extract_class_name: "tame plain (extract_class_name w code)"
  unfolding extract_class_name_def Let_def
  by (intro tame_intros tame_throw)
     (auto simp: build_command_def test_command_def is_Exception_def)

section \<open>Events and results of the stages\<close>

lemmas emits_intros =
  emits_ret emits_throw emits_lift emits_andthen emits_catching emits_ensuring
  emits_run emits_fs emits_path_exists emits_sleep emits_load_yaml emits_invoke emits_observe

lemma emits_get_param_mapping:
  "emits (get_param_mapping w impl y m)
     (\<lambda>r evs. (\<exists>x. r = Inr x) \<and> (\<forall>ev \<in> set evs. plain ev))"
  unfolding get_param_mapping_def
  by (auto intro!: emits_intros simp: is_Exception_def build_command_def test_command_def
      split: sum.split llm_outcome.split)

lemma py_int_raises: "py_int s = Inl e \<Longrightarrow> e = InvalidLiteral s"
  by (auto simp: py_int_def Let_def split: if_splits prod.splits)

lemma int_each_raises: "int_each ps = Inl e \<Longrightarrow> is_ValueError e"
  by (induction ps arbitrary: e) (auto simp: sbind_def split: sum.splits dest: py_int_raises)

lemma parse_impl_map_raises: "parse_impl_map s = Inl e \<Longrightarrow> \<exists>m. e = ValueError m"
  by (auto simp: parse_impl_map_def Let_def sbind_def
      split: sum.splits list.splits if_splits dest: py_int_raises int_each_raises)

lemma index_raises: "index xs i = Inl e \<Longrightarrow> e = IndexError"
  by (auto simp: index_def split: if_splits)

lemma plain_not_Compared: "\<forall>ev \<in> set evs. plain ev \<Longrightarrow> Compared a \<notin> set evs"
  by auto

lemma plain_not_stage: "plain ev \<Longrightarrow> \<not> stage_event ev"
  by (simp add: plain_def)

lemma plain_not_copy: "plain ev \<Longrightarrow> \<not> is_copy ev"
  by (simp add: plain_def)

lemma emits_validate_action_map:
  "emits (validate_action_map w d c (Some y) m)
     (\<lambda>r evs. (\<exists>res. r = Inr res \<and>
                  (\<forall>a. Compared a \<in> set evs \<longrightarrow> result_info res = None \<or> result_info res = Some a)) \<and>
               (\<forall>ev \<in> set evs. \<not> stage_event ev \<and> \<not> is_copy ev))"
  unfolding validate_action_map_def Let_def
  apply (simp only: option.case)
  apply (rule emits_catching)
  apply (rule emits_andthen)
  apply (rule emits_run)
  apply (auto intro!: emits_intros emits_weaken [OF emits_get_param_mapping]
      simp: is_Exception_def build_command_def test_command_def action_map_result_def
      split: sum.split yaml_outcome.split prod.split option.split
      dest!: parse_impl_map_raises index_raises)
     apply (auto dest: plain_not_Compared plain_not_stage plain_not_copy)
  done

lemma emits_tame:
  "tame \<phi> m \<Longrightarrow>
   (\<And>r evs. (\<forall>e. r = Inl e \<longrightarrow> is_Exception e) \<Longrightarrow> (\<forall>ev \<in> set evs. \<phi> ev) \<Longrightarrow> Q r evs) \<Longrightarrow>
   emits m Q"
  unfolding tame_def by (erule emits_weaken) blast

lemma concat_lines_raises: "concat_lines a b = Inl e \<Longrightarrow> e = TypeError"
  by (auto simp: concat_lines_def split: pyobj.splits)

lemma tame_setup_ground_truth_project: "tame plain (setup_ground_truth_project w gt cn ip)"
  unfolding setup_ground_truth_project_def
  by (intro tame_intros tame_remove_if_exists tame_install_required tame_throw)
     (auto simp: build_command_def test_command_def scaffold_xunit_def is_Exception_def)


lemma tame_run_test_generator: "tame plain (run_test_generator w gt cp y gp mapping)"
  unfolding run_test_generator_def
  by (intro tame_intros tame_lift)
     (auto simp: build_command_def test_command_def is_Exception_def
           split: option.splits dest: concat_lines_raises)

lemma emits_create_ground_truth_tests:
  "emits (create_ground_truth_tests w cd cn ip llm y)
     (\<lambda>r evs. (\<forall>e. r = Inl e \<longrightarrow> is_Exception e) \<and> (\<forall>ev \<in> set evs. \<not> stage_event ev \<and> \<not> is_copy ev) \<and>
               (\<forall>a. Compared a \<in> set evs \<longrightarrow> (\<forall>odc i. r = Inr (odc, i) \<longrightarrow> i = None \<or> i = Some a)))"
  unfolding create_ground_truth_tests_def Let_def
  apply (auto intro!: emits_intros emits_tame [OF tame_setup_ground_truth_project]
      emits_tame [OF tame_run_test_generator] emits_weaken [OF emits_validate_action_map]
      simp: is_Exception_def
      split: sum.split option.split)
     apply (auto dest: plain_not_Compared plain_not_stage plain_not_copy)
  done


lemma emits_create_and_setup_projects:
  "emits (create_and_setup_projects w cd cn code tc nuget llm yaml)
     (\<lambda>r evs. (\<forall>e. r = Inl e \<longrightarrow> is_Exception e) \<and> (\<forall>ev \<in> set evs. \<not> stage_event ev \<and> \<not> is_copy ev) \<and>
               (\<forall>a. Compared a \<in> set evs \<longrightarrow>
                    yaml \<noteq> None \<and> (\<forall>odc i. r = Inr (odc, i) \<longrightarrow> i = None \<or> i = Some a)))"
  unfolding create_and_setup_projects_def
  apply (auto intro!: emits_intros emits_tame [OF tame_create_implementation_project]
      emits_tame [OF tame_install_optional_packages] emits_tame [OF tame_create_llm_test_project]
      emits_tame [OF tame_create_solution] emits_weaken [OF emits_create_ground_truth_tests]
      split: sum.split option.split)
     apply (auto dest: plain_not_Compared plain_not_stage plain_not_copy)
  done


lemma parse_build_output_raises: "parse_build_output te s = Inl e \<Longrightarrow> e = OverflowError"
  by (auto simp: parse_build_output_def Let_def split: option.splits)

lemma inner_simps [simp]:
  "inner (Exec cwd argv t outcome)" "inner (Exists p b)" "inner (Sleep n)"
  by (simp_all add: inner_def)

lemma emits_build_solution:
  "emits (build_solution w cd)
     (\<lambda>r evs. (\<exists>outcome. evs = [Exec (Some cd) build_command None outcome]) \<and>
               (\<forall>e. r = Inl e \<longrightarrow> e = OverflowError))"
  unfolding build_solution_def
  by (auto intro!: emits_intros split: sum.split
      dest!: parse_build_output_raises completed_or_raised_Exception)

lemma scan_test_part_proper: "scan_test_part st p = Inl e \<Longrightarrow> is_Exception e"
  by (auto simp: scan_test_part_def Let_def sbind_def count_field_def index_def py_int_def
        is_Exception_def split: if_splits sum.splits prod.splits)

lemma scan_test_parts_proper: "scan_test_parts st ps = (st', Some e) \<Longrightarrow> is_Exception e"
  by (induction ps arbitrary: st) (auto split: sum.splits dest: scan_test_part_proper)

lemma scan_test_line_proper: "scan_test_line st l = (st', Some e) \<Longrightarrow> is_Exception e"
  by (auto simp: scan_test_line_def Let_def index_def is_Exception_def
      split: if_splits sum.splits prod.splits option.splits dest: scan_test_parts_proper)

lemma scan_test_lines_proper: "scan_test_lines st ls = (st', Some e) \<Longrightarrow> is_Exception e"
  by (induction ls arbitrary: st) (auto split: prod.splits option.splits dest: scan_test_line_proper)

lemma parse_test_output_returns: "\<exists>r. parse_test_output s = Inr r"
  by (auto simp: parse_test_output_def Let_def split: prod.splits option.splits
      dest: scan_test_lines_proper)

lemma parse_test_output_total [simp]: "parse_test_output s \<noteq> Inl e"
  using parse_test_output_returns [of s] by auto

lemma emits_run_tests:
  "emits (run_tests w d)
     (\<lambda>r evs. (\<exists>t. r = Inr t) \<and> (\<exists>outcome. evs = [Exec (Some d) test_command (Some 480) outcome]))"
  unfolding run_tests_def
  by (auto intro!: emits_intros split: sum.split dest!: completed_or_raised_Exception)

lemma emits_run_all_tests:
  "emits (run_all_tests w cd yaml)
     (\<lambda>r evs. (\<exists>l g. r = Inr (l, g)) \<and> (\<forall>ev \<in> set evs. inner ev))"
  unfolding run_all_tests_def
  by (auto intro!: emits_intros emits_weaken [OF emits_run_tests] split: sum.split)


lemma emits_retain:
  "emits (retain w cd cn target flag bm res)
     (\<lambda>r evs.
        (target = None \<or> \<not> (success bm \<or> flag) \<longrightarrow> r = Inr res \<and> evs = []) \<and>
        (\<forall>t. target = Some t \<and> (success bm \<or> flag) \<longrightarrow>
           (r = Inr (res\<lparr>solution_dir := Some (joinpath t cn)\<rparr>) \<and> copy_done cd (joinpath t cn) evs) \<or>
           (r = Inr res \<and> copy_failed cd (joinpath t cn) evs)))"
  unfolding retain_def Let_def
  by (auto intro!: emits_intros split: sum.split option.split
      simp: is_Exception_def copy_done_def copy_failed_def)


lemma copy_done_events: "copy_done src dst evs \<Longrightarrow> list_ex is_copy evs \<and> (\<forall>ev \<in> set evs. \<not> is_Compared ev \<and> \<not> stage_event ev)"
  by (auto simp: copy_done_def)

lemma copy_failed_events: "copy_failed src dst evs \<Longrightarrow> list_ex is_copy evs \<and> (\<forall>ev \<in> set evs. \<not> is_Compared ev \<and> \<not> stage_event ev)"
  by (auto simp: copy_failed_def)

lemma list_ex_is_copy_inner: "\<forall>ev \<in> set evs. inner ev \<Longrightarrow> \<not> list_ex is_copy evs"
  by (auto simp: inner_def list_ex_iff)

lemma emits_report:
  "emits
     (if \<not> success metrics then
        ret (BuildFailed,
             \<lparr>build_metrics = metrics, llm_test_results = None, ground_truth_test_results = None,
              odc_generator_output = PyStr odc,
              solution_dir = (if flag then Some cd else None), action_map_info = None\<rparr>)
      else
        andthen (run_all_tests w cd yaml)
          (\<lambda>(llm_results, gt_results).
             ret (Tested,
                  \<lparr>build_metrics = metrics, llm_test_results = Some llm_results,
                   ground_truth_test_results = gt_results, odc_generator_output = PyStr odc,
                   solution_dir = Some cd, action_map_info = info\<rparr>)))
     (\<lambda>r evs. (\<forall>ev \<in> set evs. inner ev) \<and>
        (\<exists>exit rep. r = Inr (exit, rep) \<and> build_metrics rep = metrics \<and>
           solution_dir rep = (if exit = Tested \<or> flag then Some cd else None) \<and>
           ((exit = BuildFailed \<and> \<not> success metrics \<and> action_map_info rep = None \<and>
             llm_test_results rep = None \<and> ground_truth_test_results rep = None) \<or>
            (exit = Tested \<and> success metrics \<and> action_map_info rep = info \<and>
             llm_test_results rep \<noteq> None))))"
  by (auto intro!: emits_intros emits_weaken [OF emits_run_all_tests] split: sum.split)

lemma emits_retained:
  "emits (andthen (retain w cd cn target flag bm res) (\<lambda>result'. ret (exit, result')))
     (\<lambda>r evs.
        (target = None \<or> \<not> (success bm \<or> flag) \<longrightarrow> r = Inr (exit, res) \<and> evs = []) \<and>
        (\<forall>t. target = Some t \<and> (success bm \<or> flag) \<longrightarrow>
           (r = Inr (exit, res\<lparr>solution_dir := Some (joinpath t cn)\<rparr>) \<and>
            copy_done cd (joinpath t cn) evs) \<or>
           (r = Inr (exit, res) \<and> copy_failed cd (joinpath t cn) evs)))"
  by (rule emits_andthen, rule emits_weaken [OF emits_retain])
     (auto intro!: emits_ret split: sum.split)

lemma emits_build_and_test:
  "emits (build_and_test w cd cn yaml target flag odc info) (after_build cd cn target flag info)"
  unfolding build_and_test_def
proof (rule emits_andthen, rule emits_weaken [OF emits_build_solution], goal_cases)
  case (1 r evs)
  then obtain outcome where evs: "evs = [Exec (Some cd) build_command None outcome]"
    and raised: "\<forall>e. r = Inl e \<longrightarrow> e = OverflowError"
    by blast
  show ?case
  proof (cases r)
    case (Inl e)
    then show ?thesis using evs by (simp add: after_build_def)
  next
    case (Inr built)
    obtain metrics out where built: "built = (metrics, out)" by (cases built)
    have "emits
        (andthen
           (if \<not> success metrics then
              ret (BuildFailed,
                   \<lparr>build_metrics = metrics, llm_test_results = None,
                    ground_truth_test_results = None, odc_generator_output = PyStr odc,
                    solution_dir = (if flag then Some cd else None), action_map_info = None\<rparr>)
            else
              andthen (run_all_tests w cd yaml)
                (\<lambda>(llm_results, gt_results).
                   ret (Tested,
                        \<lparr>build_metrics = metrics, llm_test_results = Some llm_results,
                         ground_truth_test_results = gt_results, odc_generator_output = PyStr odc,
                         solution_dir = Some cd, action_map_info = info\<rparr>)))
           (\<lambda>(exit, result).
              andthen (retain w cd cn target flag metrics result) (\<lambda>result'. ret (exit, result'))))
        (\<lambda>r' evs'. after_build cd cn target flag info r' (evs @ evs'))"
    proof (rule emits_andthen, rule emits_weaken [OF emits_report], goal_cases)
      case (1 r1 evs1)
      then obtain exit rep where r1: "r1 = Inr (exit, rep)"
        and inner: "\<forall>ev \<in> set evs1. inner ev"
        and bm: "build_metrics rep = metrics"
        and sd: "solution_dir rep = (if exit = Tested \<or> flag then Some cd else None)"
        and kind: "(exit = BuildFailed \<and> \<not> success metrics \<and> action_map_info rep = None \<and>
             llm_test_results rep = None \<and> ground_truth_test_results rep = None) \<or>
            (exit = Tested \<and> success metrics \<and> action_map_info rep = info \<and>
             llm_test_results rep \<noteq> None)"
        by blast
      have pre: "\<not> list_ex is_copy (evs @ evs1)" "\<forall>ev \<in> set (evs @ evs1). \<not> is_Compared ev"
        using inner evs by (auto simp: list_ex_iff inner_def)
      have "emits (andthen (retain w cd cn target flag metrics rep) (\<lambda>result'. ret (exit, result')))
              (\<lambda>r' evs'. after_build cd cn target flag info r' (evs @ evs1 @ evs'))"
      proof (rule emits_weaken [OF emits_retained], goal_cases)
        case (1 r2 evs2)
        show ?case
        proof (cases "target = None \<or> \<not> (success metrics \<or> flag)")
          case True
          with 1 have "r2 = Inr (exit, rep)" "evs2 = []" by auto
          then show ?thesis
            using True pre evs bm sd kind by (auto simp: after_build_def)
        next
          case False
          then obtain t where t: "target = Some t" and c: "success metrics \<or> flag" by auto
          from 1 t c consider
              (copied) "r2 = Inr (exit, rep\<lparr>solution_dir := Some (joinpath t cn)\<rparr>)"
                     "copy_done cd (joinpath t cn) evs2"
            | (failed) "r2 = Inr (exit, rep)" "copy_failed cd (joinpath t cn) evs2"
            by blast
          then show ?thesis
          proof cases
            case copied
            have "\<exists>pre tail. evs @ evs1 @ evs2 = pre @ tail \<and> \<not> list_ex is_copy pre \<and>
                copy_done cd (joinpath t cn) tail"
              using pre(1) copied(2) by (intro exI [of _ "evs @ evs1"] exI [of _ evs2]) simp
            then show ?thesis
              using copied t c pre evs bm kind copy_done_events [OF copied(2)]
              by (auto simp: after_build_def)
          next
            case failed
            have sdc: "solution_dir rep = Some cd" using sd c kind by auto
            have "\<exists>pre tail. evs @ evs1 @ evs2 = pre @ tail \<and> \<not> list_ex is_copy pre \<and>
                copy_failed cd (joinpath t cn) tail"
              using pre(1) failed(2) by (intro exI [of _ "evs @ evs1"] exI [of _ evs2]) simp
            then show ?thesis
              using failed t c pre evs bm kind sdc copy_failed_events [OF failed(2)]
              by (auto simp: after_build_def)
          qed
        qed
      qed
      then show ?case using r1 by simp
    qed
    then show ?thesis using Inr built by simp
  qed
qed

section \<open>Events and results of a run\<close>

lemma emits_resolve_class_name:
  "emits (resolve_class_name w code)
     (\<lambda>r evs. (\<forall>ev \<in> set evs. plain ev) \<and>
        ((\<exists>cn. r = Inr (Inr cn)) \<or> (\<exists>x out. r = Inr (Inl (x, unattempted out)) \<and> early_exit x)))"
  unfolding resolve_class_name_def
  by (rule emits_catching, rule emits_andthen, rule emits_tame [OF tame_extract_class_name])
     (auto intro!: emits_intros split: sum.split simp: early_exit_def)

lemma emits_prepare_projects:
  "emits (prepare_projects w cd cn vi llm)
     (\<lambda>r evs. (\<forall>ev \<in> set evs. \<not> stage_event ev \<and> \<not> is_copy ev) \<and>
        ((\<exists>odc i. r = Inr (Inr (odc, i)) \<and>
            (\<forall>a. Compared a \<in> set evs \<longrightarrow> yaml_path vi \<noteq> None \<and> (i = None \<or> i = Some a))) \<or>
         (\<exists>x out. r = Inr (Inl (x, unattempted out)) \<and> early_exit x)))"
  unfolding prepare_projects_def
  by (rule emits_catching, rule emits_andthen, rule emits_weaken [OF emits_create_and_setup_projects])
     (auto intro!: emits_intros split: sum.split exn.split simp: early_exit_def)



lemma skip_build_cases:
  "skip_build yaml info = Inr True \<longleftrightarrow>
     yaml \<noteq> None \<and>
     (case info of None \<Rightarrow> True
      | Some a \<Rightarrow> \<not> matches a \<or> (\<exists>n. reported_actions a = Inr n \<and> 1 < n))"
  by (auto simp: skip_build_def sbind_def split: option.splits sum.splits)

lemma emits_skip_or_build:
  "emits (skip_or_build w cd cn yaml target flag odc info)
     (\<lambda>r evs.
        (skip_build yaml info = Inr True \<longrightarrow>
           r = Inr (BuildSkipped, (unattempted (PyStr odc))\<lparr>action_map_info := info\<rparr>) \<and> evs = []) \<and>
        (\<forall>e. skip_build yaml info = Inl e \<longrightarrow> r = Inl e \<and> evs = []) \<and>
        (skip_build yaml info = Inr False \<longrightarrow> after_build cd cn target flag info r evs))"
  unfolding skip_or_build_def
  by (auto intro!: emits_intros emits_weaken [OF emits_build_and_test] split: sum.split)

lemma run_shape_early:
  "early_exit x \<Longrightarrow> \<forall>ev \<in> set evs. \<not> stage_event ev \<and> \<not> is_copy ev \<Longrightarrow>
   run_shape w target flag (Inr (x, unattempted out)) evs"
  by (auto simp: run_shape_def early_exit_def unattempted_def)

lemma after_build_exit:
  "after_build cd cn target flag info (Inr (x, rep)) evs \<Longrightarrow> x = BuildFailed \<or> x = Tested"
  by (auto simp: after_build_def)

lemma after_build_no_copy:
  "after_build cd cn target flag info (Inl e) evs \<Longrightarrow> \<not> list_ex is_copy evs"
  by (auto simp: after_build_def)

lemma emits_validate_run_shape:
  "emits (validate_run w vi llm target flag) (run_shape w target flag)"
  unfolding validate_run_def
proof (rule emits_andthen, rule emits_weaken [OF emits_resolve_class_name], goal_cases)
  case (1 r evs)
  then have plain: "\<forall>ev \<in> set evs. plain ev" by simp
  then have quiet: "\<forall>ev \<in> set evs. \<not> stage_event ev \<and> \<not> is_copy ev"
    by (auto simp: plain_def)
  from 1 consider (named) cn where "r = Inr (Inr cn)"
    | (early) x out where "r = Inr (Inl (x, unattempted out))" "early_exit x"
    by blast
  then show ?case
  proof cases
    case early
    then show ?thesis using quiet by (auto intro!: emits_ret run_shape_early)
  next
    case named
    let ?cd = "joinpath (tmp_dir w) cn"
    have "emits
        (andthen (prepare_projects w ?cd cn vi llm)
           (\<lambda>prepared.
              case prepared of
                Inl early \<Rightarrow> ret early
              | Inr (odc_generator_logs, info) \<Rightarrow>
                  skip_or_build w ?cd cn (yaml_path vi) target flag odc_generator_logs info))
        (\<lambda>r' evs'. run_shape w target flag r' (evs @ evs'))"
    proof (rule emits_andthen, rule emits_weaken [OF emits_prepare_projects], goal_cases)
      case (1 r1 evs1)
      then have quiet1: "\<forall>ev \<in> set (evs @ evs1). \<not> stage_event ev \<and> \<not> is_copy ev"
        using quiet by auto
      from 1 consider (prepared) odc i where "r1 = Inr (Inr (odc, i))"
        | (early) x out where "r1 = Inr (Inl (x, unattempted out))" "early_exit x"
        by blast
      then show ?case
      proof cases
        case early
        then show ?thesis using quiet1 by (auto intro!: emits_ret run_shape_early)
      next
        case prepared
        have "emits (skip_or_build w ?cd cn (yaml_path vi) target flag odc i)
                (\<lambda>r' evs'. run_shape w target flag r' (evs @ evs1 @ evs'))"
        proof (rule emits_weaken [OF emits_skip_or_build], goal_cases)
          case (1 r2 evs2)
          show ?case
          proof (cases "skip_build (yaml_path vi) i")
            case (Inl e)
            with 1 have "r2 = Inl e" "evs2 = []" by auto
            then show ?thesis using quiet1 by (auto simp: run_shape_def list_ex_iff)
          next
            case (Inr b)
            show ?thesis
            proof (cases b)
              case True
              with 1 Inr have "r2 = Inr (BuildSkipped, (unattempted (PyStr odc))\<lparr>action_map_info := i\<rparr>)"
                "evs2 = []" by auto
              then show ?thesis using quiet1 by (auto simp: run_shape_def unattempted_def)
            next
              case False
              with 1 Inr have ab: "after_build ?cd cn target flag i r2 evs2" by auto
              show ?thesis
              proof (cases r2)
                case (Inl e)
                then show ?thesis
                  using after_build_no_copy ab quiet1 by (auto simp: run_shape_def list_ex_iff)
              next
                case (Inr v)
                obtain x rep where v: "v = (x, rep)" by (cases v)
                have x: "x = BuildFailed \<or> x = Tested"
                  using after_build_exit ab Inr v by blast
                have "\<exists>cn info pre post. evs @ evs1 @ evs2 = pre @ post \<and>
                    (\<forall>ev \<in> set pre. \<not> stage_event ev \<and> \<not> is_copy ev) \<and>
                    after_build (joinpath (tmp_dir w) cn) cn target flag info r2 post"
                  using ab quiet1
                  by (intro exI [of _ cn] exI [of _ i] exI [of _ "evs @ evs1"] exI [of _ evs2]) simp
                then show ?thesis using x Inr v by (auto simp: run_shape_def)
              qed
            qed
          qed
        qed
        then show ?thesis using prepared by simp
      qed
    qed
    then show ?thesis using named by (simp add: Let_def)
  qed
qed


lemma after_build_not_Compared:
  "after_build cd cn target flag info r evs \<Longrightarrow> Compared a \<notin> set evs"
  by (auto simp: after_build_def)

lemma early_exit_simps [simp]: "\<not> early_exit BuildFailed" "\<not> early_exit Tested"
  "\<not> early_exit BuildSkipped"
  by (simp_all add: early_exit_def)

lemma emits_validate_run_mismatch:
  "emits (validate_run w vi llm target flag)
     (\<lambda>r evs. \<forall>a. Compared a \<in> set evs \<and> mismatch a \<longrightarrow> (\<exists>rep. r = Inr (BuildSkipped, rep)) \<or> (\<exists>x rep. r = Inr (x, rep) \<and> early_exit x))"
  unfolding validate_run_def
proof (rule emits_andthen, rule emits_weaken [OF emits_resolve_class_name], goal_cases)
  case (1 r evs)
  then have nc: "\<And>a. Compared a \<notin> set evs" by (auto dest: plain_not_Compared)
  from 1 consider (named) cn where "r = Inr (Inr cn)"
    | (early) x out where "r = Inr (Inl (x, unattempted out))" "early_exit x"
    by blast
  then show ?case
  proof cases
    case early
    then show ?thesis by (auto intro!: emits_ret)
  next
    case named
    let ?cd = "joinpath (tmp_dir w) cn"
    have "emits
        (andthen (prepare_projects w ?cd cn vi llm)
           (\<lambda>prepared.
              case prepared of
                Inl early \<Rightarrow> ret early
              | Inr (odc_generator_logs, info) \<Rightarrow>
                  skip_or_build w ?cd cn (yaml_path vi) target flag odc_generator_logs info))
        (\<lambda>r' evs'. \<forall>a. Compared a \<in> set (evs @ evs') \<and> mismatch a \<longrightarrow>
           (\<exists>rep. r' = Inr (BuildSkipped, rep)) \<or> (\<exists>x rep. r' = Inr (x, rep) \<and> early_exit x))"
    proof (rule emits_andthen, rule emits_weaken [OF emits_prepare_projects], goal_cases)
      case (1 r1 evs1)
      from 1 consider (prepared) odc i where "r1 = Inr (Inr (odc, i))"
          "\<forall>a. Compared a \<in> set evs1 \<longrightarrow> yaml_path vi \<noteq> None \<and> (i = None \<or> i = Some a)"
        | (early) x out where "r1 = Inr (Inl (x, unattempted out))" "early_exit x"
        by blast
      then show ?case
      proof cases
        case early
        then show ?thesis by (auto intro!: emits_ret)
      next
        case prepared
        have "emits (skip_or_build w ?cd cn (yaml_path vi) target flag odc i)
                (\<lambda>r' evs'. \<forall>a. Compared a \<in> set (evs @ evs1 @ evs') \<and> mismatch a \<longrightarrow>
                   (\<exists>rep. r' = Inr (BuildSkipped, rep)) \<or> (\<exists>x rep. r' = Inr (x, rep) \<and> early_exit x))"
        proof (rule emits_weaken [OF emits_skip_or_build], goal_cases)
          case (1 r2 evs2)
          show ?case
          proof (intro allI impI)
            fix a
            assume a: "Compared a \<in> set (evs @ evs1 @ evs2) \<and> mismatch a"
            have n2: "Compared a \<notin> set evs2"
            proof (cases "skip_build (yaml_path vi) i")
              case (Inl e) with 1 show ?thesis by auto
            next
              case (Inr b)
              with 1 show ?thesis by (cases b) (auto dest: after_build_not_Compared)
            qed
            with a nc have "Compared a \<in> set evs1" by auto
            with prepared(2) have "yaml_path vi \<noteq> None" "i = None \<or> i = Some a" by auto
            with a have "skip_build (yaml_path vi) i = Inr True"
              by (auto simp: skip_build_cases mismatch_def)
            with 1 show "(\<exists>rep. r2 = Inr (BuildSkipped, rep)) \<or> (\<exists>x rep. r2 = Inr (x, rep) \<and> early_exit x)"
              by auto
          qed
        qed
        then show ?thesis using prepared by simp
      qed
    qed
    then show ?thesis using named by (simp add: Let_def)
  qed
qed


section \<open>The output parsers\<close>

lemma set_first_seen: "set (first_seen xs) = set xs"
  by (induction xs rule: first_seen.induct) auto

lemma distinct_first_seen: "distinct (first_seen xs)"
  by (induction xs rule: first_seen.induct) (auto simp: set_first_seen)

lemma length_first_seen: "length (first_seen xs) = card (set xs)"
  using distinct_card [OF distinct_first_seen, of xs] by (simp add: set_first_seen)

lemma first_seen_step:
  "P l \<Longrightarrow> l \<notin> A \<Longrightarrow>
   first_seen (filter (\<lambda>x. P x \<and> x \<notin> A) (l # ls)) =
     l # first_seen (filter (\<lambda>x. P x \<and> x \<notin> insert l A) ls)"
proof -
  assume "P l" "l \<notin> A"
  moreover have "filter (\<lambda>y. y \<noteq> l) (filter (\<lambda>x. P x \<and> x \<notin> A) ls) =
      filter (\<lambda>x. P x \<and> x \<notin> insert l A) ls"
    unfolding filter_filter by (rule filter_cong) auto
  ultimately show ?thesis by simp
qed

lemma first_seen_skip:
  "\<not> (P l \<and> l \<notin> A) \<Longrightarrow>
   first_seen (filter (\<lambda>x. P x \<and> x \<notin> A) (l # ls)) =
     first_seen (filter (\<lambda>x. P x \<and> x \<notin> A) ls)"
  by auto

lemma scan_fold_warnings:
  "scan_warnings (foldl scan_build_line st ls) =
     scan_warnings st @
     first_seen (filter (\<lambda>l. py_in '': warning '' l \<and> l \<notin> seen_warning_lines st) ls)"
proof (induction ls arbitrary: st)
  case Nil show ?case by simp
next
  case (Cons l ls)
  let ?st = "scan_build_line st l"
  have step: "scan_warnings (foldl scan_build_line st (l # ls)) =
      scan_warnings ?st @
      first_seen (filter (\<lambda>x. py_in '': warning '' x \<and> x \<notin> seen_warning_lines ?st) ls)"
    using Cons.IH [of ?st] by simp
  show ?case
  proof (cases "py_in '': warning '' l \<and> l \<notin> seen_warning_lines st")
    case True
    have w: "scan_warnings ?st = scan_warnings st @ [l]"
      and s: "seen_warning_lines ?st = insert l (seen_warning_lines st)"
      using True by (auto simp: scan_build_line_def Let_def)
    from True have p: "py_in '': warning '' l" and n: "l \<notin> seen_warning_lines st"
      by simp_all
    show ?thesis
      unfolding step w s first_seen_step [of "py_in '': warning ''", OF p n] by simp
  next
    case False
    have w: "scan_warnings ?st = scan_warnings st"
      and s: "seen_warning_lines ?st = seen_warning_lines st"
      using False by (auto simp: scan_build_line_def Let_def)
    show ?thesis
      unfolding step w s first_seen_skip [of "py_in '': warning ''", OF False] by simp
  qed
qed

lemma scan_fold_errors:
  "scan_errors (foldl scan_build_line st ls) =
     scan_errors st @
     first_seen (filter (\<lambda>l. py_in '': error '' l \<and> l \<notin> seen_error_lines st) ls)"
proof (induction ls arbitrary: st)
  case Nil show ?case by simp
next
  case (Cons l ls)
  let ?st = "scan_build_line st l"
  have step: "scan_errors (foldl scan_build_line st (l # ls)) =
      scan_errors ?st @
      first_seen (filter (\<lambda>x. py_in '': error '' x \<and> x \<notin> seen_error_lines ?st) ls)"
    using Cons.IH [of ?st] by simp
  show ?case
  proof (cases "py_in '': error '' l \<and> l \<notin> seen_error_lines st")
    case True
    have w: "scan_errors ?st = scan_errors st @ [l]"
      and s: "seen_error_lines ?st = insert l (seen_error_lines st)"
      using True by (auto simp: scan_build_line_def Let_def)
    from True have p: "py_in '': error '' l" and n: "l \<notin> seen_error_lines st"
      by simp_all
    show ?thesis
      unfolding step w s first_seen_step [of "py_in '': error ''", OF p n] by simp
  next
    case False
    have w: "scan_errors ?st = scan_errors st"
      and s: "seen_error_lines ?st = seen_error_lines st"
      using False by (auto simp: scan_build_line_def Let_def)
    show ?thesis
      unfolding step w s first_seen_skip [of "py_in '': error ''", OF False] by simp
  qed
qed

lemma scan_build_lines_warnings:
  "scan_warnings (scan_build_lines ls) = first_seen (filter (py_in '': warning '') ls)"
  using scan_fold_warnings [of "\<lparr>scan_warnings = [], scan_errors = [], seen_warning_lines = {}, seen_error_lines = {}\<rparr>" ls]
  by (simp add: scan_build_lines_def)

lemma scan_build_lines_errors:
  "scan_errors (scan_build_lines ls) = first_seen (filter (py_in '': error '') ls)"
  using scan_fold_errors [of "\<lparr>scan_warnings = [], scan_errors = [], seen_warning_lines = {}, seen_error_lines = {}\<rparr>" ls]
  by (simp add: scan_build_lines_def)

lemma parse_build_output_fields:
  assumes "parse_build_output te s = Inr m"
  shows "warnings m = first_seen (filter (py_in '': warning '') (splitlines s))"
    and "errors m = first_seen (filter (py_in '': error '') (splitlines s))"
    and "success m = (py_in ''Build succeeded'' s \<and> errors m = [])"
  using assms
  by (auto simp: parse_build_output_def Let_def scan_build_lines_warnings scan_build_lines_errors
      split: option.splits)

text \<open>
  Claim C3. Whenever the build parser returns metrics, their success flag is true exactly
  when the text contains "Build succeeded" and the parsed error list is empty; so a single
  line with ": error " makes it false, with or without the success marker.
\<close>

theorem parse_build_output_success:
  assumes "parse_build_output te s = Inr m"
  shows "(success m \<longleftrightarrow> py_in ''Build succeeded'' s \<and> errors m = []) \<and>
         ((\<exists>l \<in> set (splitlines s). py_in '': error '' l) \<longrightarrow> \<not> success m)"
proof -
  have e: "set (errors m) = {l \<in> set (splitlines s). py_in '': error '' l}"
    using parse_build_output_fields(2) [OF assms] by (auto simp: set_first_seen)
  have "(\<exists>l \<in> set (splitlines s). py_in '': error '' l) \<longrightarrow> errors m \<noteq> []"
    using e by auto
  then show ?thesis using parse_build_output_fields(3) [OF assms] by blast
qed

theorem parse_build_output_success_witness:
  "parse_build_output (\<lambda>_. Some 0) sample_build_output = Inr sample_build_metrics \<and>
   py_in ''Build succeeded'' sample_build_output \<and>
   (\<exists>l \<in> set (splitlines sample_build_output). py_in '': error '' l) \<and>
   \<not> success sample_build_metrics"
proof -
  have h: "parse_build_output (\<lambda>_. Some 0) sample_build_output = Inr sample_build_metrics"
    by code_simp
  have m: "py_in ''Build succeeded'' sample_build_output"
    by code_simp
  have e: "\<exists>l \<in> set (splitlines sample_build_output). py_in '': error '' l"
    by code_simp
  show ?thesis using h m e parse_build_output_success [OF h] by blast
qed

text \<open>
  Claim C5. Whenever the build parser returns metrics, the warnings are the lines with
  ": warning " and the errors the lines with ": error ", each line once, in the order of
  first occurrence; with N distinct warning lines and M distinct error lines the two lists
  have N and M entries.
\<close>

theorem parse_build_output_dedup:
  assumes "parse_build_output te s = Inr m"
  shows "warnings m = first_seen (filter (py_in '': warning '') (splitlines s)) \<and>
         errors m = first_seen (filter (py_in '': error '') (splitlines s)) \<and>
         distinct (warnings m) \<and> distinct (errors m) \<and>
         set (warnings m) = {l \<in> set (splitlines s). py_in '': warning '' l} \<and>
         set (errors m) = {l \<in> set (splitlines s). py_in '': error '' l} \<and>
         length (warnings m) = card {l \<in> set (splitlines s). py_in '': warning '' l} \<and>
         length (errors m) = card {l \<in> set (splitlines s). py_in '': error '' l}"
proof -
  note f = parse_build_output_fields [OF assms]
  have sw: "set (warnings m) = {l \<in> set (splitlines s). py_in '': warning '' l}"
    by (auto simp: f(1) set_first_seen)
  have se: "set (errors m) = {l \<in> set (splitlines s). py_in '': error '' l}"
    by (auto simp: f(2) set_first_seen)
  have dw: "distinct (warnings m)" by (simp add: f(1) distinct_first_seen)
  have de: "distinct (errors m)" by (simp add: f(2) distinct_first_seen)
  show ?thesis
    using f(1) f(2) dw de sw se distinct_card [OF dw] distinct_card [OF de] by simp
qed


theorem parse_build_output_dedup_witness:
  "parse_build_output (\<lambda>_. Some 0) sample_build_output = Inr sample_build_metrics \<and>
   warnings sample_build_metrics =
     first_seen (filter (py_in '': warning '') (splitlines sample_build_output)) \<and>
   length (warnings sample_build_metrics) = 2 \<and> length (errors sample_build_metrics) = 1"
proof -
  have h: "parse_build_output (\<lambda>_. Some 0) sample_build_output = Inr sample_build_metrics"
    by code_simp
  have l: "length (warnings sample_build_metrics) = 2 \<and> length (errors sample_build_metrics) = 1"
    by (simp add: sample_build_metrics_def)
  show ?thesis using h l parse_build_output_dedup [OF h] by blast
qed






section \<open>The orchestrator\<close>

lemma validate_generated_code_run:
  "validate_generated_code w vi llm target flag tr =
     (case validate_run w vi llm target flag tr of
        (Inl e, tr') \<Rightarrow> (Inl e, tr')
      | (Inr (x, rep), tr') \<Rightarrow> (Inr rep, tr'))"
  by (simp add: validate_generated_code_def andthen_def ret_def split: prod.splits sum.splits)

text \<open>
  Claim C1. If a run has compared the action maps, and they differ or the implementation
  summary reports more than one action, then the run returns a report, the build metrics
  of the report are the value of a build not attempted, both test results are absent, and
  neither the build nor the test command has been run.
\<close>

theorem mismatch_skips_build:
  assumes "validate_generated_code w inputs llm target flag [] = (r, evs)"
    and "Compared a \<in> set evs"
    and "\<not> matches a \<or> (\<exists>n. reported_actions a = Inr n \<and> 1 < n)"
  shows "(\<exists>rep. r = Inr rep \<and> build_metrics rep = default_build_metrics \<and>
            llm_test_results rep = None \<and> ground_truth_test_results rep = None) \<and>
         (\<forall>ev \<in> set evs. \<not> stage_event ev)"
proof -
  obtain r0 where run: "validate_run w inputs llm target flag [] = (r0, evs)"
    and r: "r = (case r0 of Inl e \<Rightarrow> Inl e | Inr (x, rep) \<Rightarrow> Inr rep)"
    using assms(1) unfolding validate_generated_code_run
    by (cases "validate_run w inputs llm target flag []") (auto split: sum.splits prod.splits)
  have m: "mismatch a" using assms(3) by (simp add: mismatch_def)
  from emitsD [OF emits_validate_run_mismatch run] assms(2) m
  obtain x rep where r0: "r0 = Inr (x, rep)" and x: "x = BuildSkipped \<or> early_exit x"
    by auto
  have nb: "x \<noteq> BuildFailed \<and> x \<noteq> Tested" using x by (auto simp: early_exit_def)
  from emitsD [OF emits_validate_run_shape run] have "run_shape w target flag r0 evs" by simp
  with r0 nb have "(\<forall>ev \<in> set evs. \<not> stage_event ev) \<and> build_metrics rep = default_build_metrics \<and>
      llm_test_results rep = None \<and> ground_truth_test_results rep = None"
    by (auto simp: run_shape_def)
  then show ?thesis using r r0 by simp
qed


theorem mismatch_skips_build_witness:
  "Compared mismatch_info \<in>
     set (snd (validate_generated_code mismatch_world sample_inputs (Some sample_model) None False [])) \<and>
   \<not> matches mismatch_info \<and>
   (\<exists>rep. fst (validate_generated_code mismatch_world sample_inputs (Some sample_model) None False []) = Inr rep \<and>
      build_metrics rep = default_build_metrics \<and> llm_test_results rep = None \<and>
      ground_truth_test_results rep = None) \<and>
   \<not> list_ex stage_event
       (snd (validate_generated_code mismatch_world sample_inputs (Some sample_model) None False []))"
proof -
  let ?run = "validate_generated_code mismatch_world sample_inputs (Some sample_model) None False []"
  have c: "Compared mismatch_info \<in> set (snd ?run)"
    by code_simp
  have m: "\<not> matches mismatch_info \<or> (\<exists>n. reported_actions mismatch_info = Inr n \<and> 1 < n)"
    by (simp add: mismatch_info_def)
  have n: "\<not> matches mismatch_info"
    by (simp add: mismatch_info_def)
  show ?thesis
    using mismatch_skips_build [OF prod.collapse [symmetric] c m] c n
    unfolding list_ex_iff by blast
qed




lemma is_build_stage: "is_build ev \<Longrightarrow> stage_event ev"
  by (cases ev) (auto simp: stage_event_def)

text \<open>
  Claim C9. The report is the one of \<open>validate_generated_code\<close>. If the build was run
  and failed, the run ends at \<open>BuildFailed\<close> and the report has no action-map
  information, whatever the comparison said. A report that has the information comes
  from the exit that skips the build, where no build was run, or from the exit after the
  tests, where the build succeeded.
\<close>

theorem failed_build_drops_action_map:
  assumes "validate_run w inputs llm target flag [] = (Inr (exit, rep), evs)"
  shows "fst (validate_generated_code w inputs llm target flag []) = Inr rep \<and>
         (list_ex is_build evs \<and> \<not> success (build_metrics rep) \<longrightarrow>
            exit = BuildFailed \<and> action_map_info rep = None) \<and>
         (action_map_info rep \<noteq> None \<longrightarrow>
            (exit = BuildSkipped \<and> \<not> list_ex is_build evs) \<or>
            (exit = Tested \<and> list_ex is_build evs \<and> success (build_metrics rep)))"
proof -
  have rep: "fst (validate_generated_code w inputs llm target flag []) = Inr rep"
    using assms by (simp add: validate_generated_code_run)
  from emitsD [OF emits_validate_run_shape assms]
  have shape: "run_shape w target flag (Inr (exit, rep)) evs" by simp
  have built: "list_ex is_build evs" and kind: "(exit = BuildFailed \<and> \<not> success (build_metrics rep) \<and>
      action_map_info rep = None) \<or> (exit = Tested \<and> success (build_metrics rep))"
    if "exit = BuildFailed \<or> exit = Tested"
    using shape that by (auto simp: run_shape_def after_build_def)
  have quiet: "\<not> list_ex is_build evs" and early: "exit \<noteq> BuildSkipped \<longrightarrow> action_map_info rep = None"
    if "\<not> (exit = BuildFailed \<or> exit = Tested)"
    using shape that by (auto simp: run_shape_def list_ex_iff dest: is_build_stage)
  show ?thesis
  proof (cases "exit = BuildFailed \<or> exit = Tested")
    case True
    then show ?thesis using rep built [OF True] kind [OF True] by auto
  next
    case False
    then show ?thesis using rep quiet [OF False] early [OF False] by auto
  qed
qed

theorem failed_build_drops_action_map_witness:
  "(\<exists>rep evs.
      validate_run failing_build_world sample_inputs (Some sample_model) None False [] =
        (Inr (BuildFailed, rep), evs) \<and>
      Compared matching_info \<in> set evs \<and> matches matching_info \<and> list_ex is_build evs \<and>
      \<not> success (build_metrics rep) \<and> action_map_info rep = None)"
proof -
  let ?run = "validate_run failing_build_world sample_inputs (Some sample_model) None False []"
  obtain r evs where run: "?run = (r, evs)" by (cases ?run)
  have x: "map_sum id fst (fst ?run) = Inr BuildFailed" by code_simp
  have c: "Compared matching_info \<in> set (snd ?run)" by code_simp
  have b: "list_ex is_build (snd ?run)" by code_simp
  have f: "case fst ?run of Inr (x, rep) \<Rightarrow> \<not> success (build_metrics rep) | Inl e \<Rightarrow> False"
    by code_simp
  from x run obtain rep where r: "r = Inr (BuildFailed, rep)" by (cases r) auto
  with f run have nf: "\<not> success (build_metrics rep)" by simp
  from failed_build_drops_action_map [OF run [unfolded r]] b nf run
  have "action_map_info rep = None" by simp
  then show ?thesis using run r c b nf by (auto simp: matching_info_def)
qed

end
